theory Spec2Isabelle
  imports Complex_Main
begin

section \<open>Entity store: rows, tables and errors\<close>

text \<open>
  The rows of \<^verbatim>\<open>app/infrastructure/db/repositories.py\<close>. Primary keys are Python ints,
  \<^verbatim>\<open>deleted_at\<close> is the soft-delete marker (a UTC timestamp, here seconds as a real
  number, or \<^verbatim>\<open>None\<close>). The columns \<^verbatim>\<open>created_at\<close> and \<^verbatim>\<open>updated_at\<close> are filled by the
  database server and read by no query of the repositories; they are left out.

  The schema declares the primary key \<^verbatim>\<open>id\<close> of each table and the unique constraints
  \<^verbatim>\<open>uq_privilege_resource_action\<close>, \<^verbatim>\<open>roles.name\<close> and \<^verbatim>\<open>users.email\<close>; the two join tables
  have composite primary keys. An insert or update that breaks one of them is refused with
  \<^verbatim>\<open>IntegrityError\<close>; where a theorem needs that stored rows satisfy them, it says so.
\<close>

record PrivilegeORM =
  p_id :: int
  p_resource :: string
  p_action :: string
  p_description :: "string option"
  p_deleted_at :: "real option"

record RoleORM =
  r_id :: int
  r_name :: string
  r_is_superuser :: bool
  r_deleted_at :: "real option"

record UserORM =
  u_id :: int
  u_email :: string
  u_hashed_password :: string
  u_is_active :: bool
  u_is_blocked :: bool
  u_deleted_at :: "real option"

text \<open>
  The database: the three entity tables and the two join tables \<^verbatim>\<open>user_roles\<close>
  (user id, role id) and \<^verbatim>\<open>role_privileges\<close> (role id, privilege id), each a list of rows
  in insertion order.
\<close>

record db =
  privileges :: "PrivilegeORM list"
  roles :: "RoleORM list"
  users :: "UserORM list"
  user_roles :: "(int \<times> int) list"
  role_privileges :: "(int \<times> int) list"

definition empty_db :: db where
  "empty_db = \<lparr>privileges = [], roles = [], users = [], user_roles = [], role_privileges = []\<rparr>"

text \<open>
  Every exception the modelled code raises: FastAPI's \<^verbatim>\<open>HTTPException(status_code, detail)\<close>,
  the repository's \<^verbatim>\<open>ValueError(message)\<close>, SQLAlchemy's \<^verbatim>\<open>MultipleResultsFound\<close> (from
  \<^verbatim>\<open>scalar_one_or_none\<close> on more than one row) and \<^verbatim>\<open>IntegrityError\<close> (a flush that breaks a
  unique constraint of the schema), Python's \<^verbatim>\<open>AttributeError\<close> and \<^verbatim>\<open>TypeError\<close>, and
  the Redis client's \<^verbatim>\<open>ConnectionError\<close>.
\<close>

datatype error =
    HTTPException nat string
  | ValueError string
  | MultipleResultsFound
  | IntegrityError
  | AttributeError
  | TypeError
  | ConnectionError

fun scalar_one_or_none :: "'a list \<Rightarrow> error + 'a option" where
  "scalar_one_or_none [] = Inr None"
| "scalar_one_or_none [x] = Inr (Some x)"
| "scalar_one_or_none (x # y # zs) = Inl MultipleResultsFound"

text \<open>The id an autoincrement primary key gives the next inserted row.\<close>

definition next_id :: "int list \<Rightarrow> int" where
  "next_id ids = fold max ids 0 + 1"

section \<open>UserRepository: the two authorization queries\<close>

text \<open>
  \<^verbatim>\<open>user_has_privilege\<close> counts the rows of the inner join
  users - user_roles - roles - role_privileges - privileges that pass the \<^verbatim>\<open>where\<close> clause,
  and answers whether the count is positive.
\<close>

definition user_has_privilege :: "db \<Rightarrow> int \<Rightarrow> string \<Rightarrow> string \<Rightarrow> bool" where
  "user_has_privilege d user_id resource action =
     (length
        [p_id p.
           u \<leftarrow> users d,
           ur \<leftarrow> user_roles d, u_id u = fst ur,
           r \<leftarrow> roles d, r_id r = snd ur,
           rp \<leftarrow> role_privileges d, r_id r = fst rp,
           p \<leftarrow> privileges d, p_id p = snd rp,
           u_id u = user_id \<and> u_deleted_at u = None \<and> r_deleted_at r = None \<and>
           p_deleted_at p = None \<and> p_resource p = resource \<and> p_action p = action]
      > 0)"

text \<open>
  \<^verbatim>\<open>user_is_superuser\<close> counts the rows of users - user_roles - roles with the user's id,
  the role's flag set and the role not soft-deleted. It does not look at the user's own
  \<^verbatim>\<open>deleted_at\<close>.
\<close>

definition user_is_superuser :: "db \<Rightarrow> int \<Rightarrow> bool" where
  "user_is_superuser d user_id =
     (length
        [r_id r.
           u \<leftarrow> users d,
           ur \<leftarrow> user_roles d, u_id u = fst ur,
           r \<leftarrow> roles d, r_id r = snd ur,
           u_id u = user_id \<and> r_is_superuser r \<and> r_deleted_at r = None]
      > 0)"

section \<open>AuthService.assert_privilege\<close>

definition assert_privilege :: "db \<Rightarrow> int \<Rightarrow> string \<Rightarrow> string \<Rightarrow> error + unit" where
  "assert_privilege d user_id resource action =
     (if user_is_superuser d user_id then Inr ()
      else if \<not> user_has_privilege d user_id resource action
        then Inl (HTTPException 403 (''Missing privilege '' @ action @ '' on '' @ resource))
      else Inr ())"

text \<open>
  The two conditions of the evaluator in the words of the specification. A user holds a
  role when the user's row exists and \<^verbatim>\<open>user_roles\<close> links it to the role's row.
\<close>

definition holds_superuser_role :: "db \<Rightarrow> int \<Rightarrow> bool" where
  "holds_superuser_role d user_id \<longleftrightarrow>
     (\<exists>u \<in> set (users d). \<exists>r \<in> set (roles d).
        u_id u = user_id \<and> (user_id, r_id r) \<in> set (user_roles d) \<and>
        r_is_superuser r \<and> r_deleted_at r = None)"

definition has_matching_privilege :: "db \<Rightarrow> int \<Rightarrow> string \<Rightarrow> string \<Rightarrow> bool" where
  "has_matching_privilege d user_id resource action \<longleftrightarrow>
     (\<exists>u \<in> set (users d). \<exists>r \<in> set (roles d). \<exists>p \<in> set (privileges d).
        u_id u = user_id \<and> u_deleted_at u = None \<and>
        (user_id, r_id r) \<in> set (user_roles d) \<and> r_deleted_at r = None \<and>
        (r_id r, p_id p) \<in> set (role_privileges d) \<and> p_deleted_at p = None \<and>
        p_resource p = resource \<and> p_action p = action)"

section \<open>PrivilegeRepository\<close>

text \<open>
  A repository method that takes an ORM object is given the loaded row; what it writes
  goes to the stored row with the same primary key (the flush's
  \<^verbatim>\<open>UPDATE ... WHERE id = ...\<close>).
\<close>

definition PrivilegeRepository_get_by_id ::
  "db \<Rightarrow> int \<Rightarrow> bool \<Rightarrow> error + PrivilegeORM option" where
  "PrivilegeRepository_get_by_id d privilege_id include_deleted =
     scalar_one_or_none
       [p \<leftarrow> privileges d. p_id p = privilege_id \<and> (include_deleted \<or> p_deleted_at p = None)]"

text \<open>
  \<^verbatim>\<open>get_or_create\<close> selects the active rows with the given resource and action. With no
  such row it adds a new one and flushes; the flush is an \<^verbatim>\<open>INSERT\<close>, which the unique
  constraint \<^verbatim>\<open>uq_privilege_resource_action\<close> (on resource and action alone, whatever
  \<^verbatim>\<open>deleted_at\<close> is) refuses with \<^verbatim>\<open>IntegrityError\<close> when any stored row has the pair.
\<close>

definition get_or_create ::
  "db \<Rightarrow> string \<Rightarrow> string \<Rightarrow> string option \<Rightarrow> error + (PrivilegeORM \<times> db)" where
  "get_or_create d resource action description =
     (case scalar_one_or_none
             [p \<leftarrow> privileges d.
                p_resource p = resource \<and> p_action p = action \<and> p_deleted_at p = None] of
        Inl e \<Rightarrow> Inl e
      | Inr (Some privilege) \<Rightarrow> Inr (privilege, d)
      | Inr None \<Rightarrow>
          (if \<exists>p \<in> set (privileges d). p_resource p = resource \<and> p_action p = action
           then Inl IntegrityError
           else
             let privilege =
               \<lparr>p_id = next_id (map p_id (privileges d)), p_resource = resource,
                p_action = action, p_description = description, p_deleted_at = None\<rparr>
             in Inr (privilege, d\<lparr>privileges := privileges d @ [privilege]\<rparr>)))"

definition put_privilege :: "db \<Rightarrow> PrivilegeORM \<Rightarrow> db" where
  "put_privilege d privilege =
     d\<lparr>privileges := map (\<lambda>p. if p_id p = p_id privilege then privilege else p) (privileges d)\<rparr>"

definition PrivilegeRepository_soft_delete :: "db \<Rightarrow> PrivilegeORM \<Rightarrow> real \<Rightarrow> db" where
  "PrivilegeRepository_soft_delete d privilege now =
     put_privilege d (privilege\<lparr>p_deleted_at := Some now\<rparr>)"

definition PrivilegeRepository_restore :: "db \<Rightarrow> PrivilegeORM \<Rightarrow> PrivilegeORM \<times> db" where
  "PrivilegeRepository_restore d privilege =
     (let restored = privilege\<lparr>p_deleted_at := None\<rparr> in (restored, put_privilege d restored))"

text \<open>
  \<^verbatim>\<open>PrivilegeService.create_privilege\<close>: \<^verbatim>\<open>get_or_create\<close>, then a restore when the row it got
  is soft-deleted.
\<close>

definition create_privilege ::
  "db \<Rightarrow> string \<Rightarrow> string \<Rightarrow> string option \<Rightarrow> error + (PrivilegeORM \<times> db)" where
  "create_privilege d resource action description =
     (case get_or_create d resource action description of
        Inl e \<Rightarrow> Inl e
      | Inr (existing, d1) \<Rightarrow>
          if p_deleted_at existing \<noteq> None then Inr (PrivilegeRepository_restore d1 existing)
          else Inr (existing, d1))"

section \<open>RoleRepository\<close>

definition get_by_name :: "db \<Rightarrow> string \<Rightarrow> error + RoleORM option" where
  "get_by_name d name =
     scalar_one_or_none [r \<leftarrow> roles d. r_name r = name \<and> r_deleted_at r = None]"

definition RoleRepository_get_by_id :: "db \<Rightarrow> int \<Rightarrow> bool \<Rightarrow> error + RoleORM option" where
  "RoleRepository_get_by_id d role_id include_deleted =
     scalar_one_or_none
       [r \<leftarrow> roles d. r_id r = role_id \<and> (include_deleted \<or> r_deleted_at r = None)]"

text \<open>
  \<^verbatim>\<open>_assert_single_super_role\<close>: the select has the flag as its only condition (and the
  excluded id when one is given); it has no condition on \<^verbatim>\<open>deleted_at\<close>. One row found
  raises \<^verbatim>\<open>ValueError\<close>; several make \<^verbatim>\<open>scalar_one_or_none\<close> itself raise.
\<close>

definition assert_single_super_role :: "db \<Rightarrow> int option \<Rightarrow> error + unit" where
  "assert_single_super_role d exclude_role_id =
     (case scalar_one_or_none
             [r \<leftarrow> roles d.
                r_is_superuser r \<and>
                (case exclude_role_id of None \<Rightarrow> True | Some x \<Rightarrow> r_id r \<noteq> x)] of
        Inl e \<Rightarrow> Inl e
      | Inr (Some r) \<Rightarrow> Inl (ValueError ''A superuser role already exists'')
      | Inr None \<Rightarrow> Inr ())"

text \<open>
  \<^verbatim>\<open>create\<close>: the superuser check, then the privileges named by \<^verbatim>\<open>privilege_ids\<close> (active
  ones only), then the flush, which inserts the role (refused when the unique
  \<^verbatim>\<open>roles.name\<close> is taken) and one link per privilege.
\<close>

definition create ::
  "db \<Rightarrow> string \<Rightarrow> int list option \<Rightarrow> bool \<Rightarrow> error + (RoleORM \<times> db)" where
  "create d name privilege_ids is_superuser =
     (case (if is_superuser then assert_single_super_role d None else Inr ()) of
        Inl e \<Rightarrow> Inl e
      | Inr _ \<Rightarrow>
          let selected =
            (case privilege_ids of
               None \<Rightarrow> []
             | Some ids \<Rightarrow>
                 if ids = [] then []
                 else [p \<leftarrow> privileges d. p_id p \<in> set ids \<and> p_deleted_at p = None])
          in
            if \<exists>r \<in> set (roles d). r_name r = name then Inl IntegrityError
            else
              let role =
                \<lparr>r_id = next_id (map r_id (roles d)), r_name = name,
                 r_is_superuser = is_superuser, r_deleted_at = None\<rparr>
              in Inr (role,
                      d\<lparr>roles := roles d @ [role],
                        role_privileges :=
                          role_privileges d @ map (\<lambda>p. (r_id role, p_id p)) selected\<rparr>))"

text \<open>
  \<^verbatim>\<open>attach_privilege\<close> and \<^verbatim>\<open>detach_privilege\<close>. \<^verbatim>\<open>not role.id\<close> holds for the id 0 (an
  object that was never flushed has no id; a stored row has a nonzero one).
\<close>

definition attach_privilege :: "db \<Rightarrow> RoleORM \<Rightarrow> PrivilegeORM \<Rightarrow> db" where
  "attach_privilege d role privilege =
     (if r_id role = 0 \<or> p_id privilege = 0 then d
      else if [l \<leftarrow> role_privileges d. fst l = r_id role \<and> snd l = p_id privilege] \<noteq> [] then d
      else d\<lparr>role_privileges := role_privileges d @ [(r_id role, p_id privilege)]\<rparr>)"

definition detach_privilege :: "db \<Rightarrow> RoleORM \<Rightarrow> PrivilegeORM \<Rightarrow> db" where
  "detach_privilege d role privilege =
     (if r_id role = 0 \<or> p_id privilege = 0 then d
      else d\<lparr>role_privileges :=
               [l \<leftarrow> role_privileges d. \<not> (fst l = r_id role \<and> snd l = p_id privilege)]\<rparr>)"

definition put_role :: "db \<Rightarrow> RoleORM \<Rightarrow> db" where
  "put_role d role = d\<lparr>roles := map (\<lambda>r. if r_id r = r_id role then role else r) (roles d)\<rparr>"

text \<open>
  \<^verbatim>\<open>update_role\<close>. A non-empty \<^verbatim>\<open>name\<close> is assigned first. The session autoflushes before
  the query of the superuser check, and flushes at the end: a changed name that another row has is
  refused by the unique \<^verbatim>\<open>roles.name\<close> in either flush, so before the superuser check
  when both fail.
\<close>

definition RoleRepository_update_role ::
  "db \<Rightarrow> RoleORM \<Rightarrow> string option \<Rightarrow> bool option \<Rightarrow> error + (RoleORM \<times> db)" where
  "RoleRepository_update_role d role name is_superuser =
     (let role1 = (case name of
                     None \<Rightarrow> role
                   | Some n \<Rightarrow> if n \<noteq> [] then role\<lparr>r_name := n\<rparr> else role)
      in
        if r_name role1 \<noteq> r_name role \<and>
           (\<exists>r \<in> set (roles d). r_id r \<noteq> r_id role1 \<and> r_name r = r_name role1)
        then Inl IntegrityError
        else
          (case is_superuser of
             None \<Rightarrow> Inr (role1, put_role d role1)
           | Some flag \<Rightarrow>
               if flag \<noteq> r_is_superuser role1 then
                 (case (if flag then assert_single_super_role (put_role d role1) (Some (r_id role1))
                        else Inr ()) of
                    Inl e \<Rightarrow> Inl e
                  | Inr _ \<Rightarrow>
                      let role2 = role1\<lparr>r_is_superuser := flag\<rparr>
                      in Inr (role2, put_role d role2))
               else Inr (role1, put_role d role1)))"

definition RoleRepository_soft_delete :: "db \<Rightarrow> RoleORM \<Rightarrow> real \<Rightarrow> db" where
  "RoleRepository_soft_delete d role now = put_role d (role\<lparr>r_deleted_at := Some now\<rparr>)"

text \<open>
  A relationship collection (\<^verbatim>\<open>role.privileges\<close>, \<^verbatim>\<open>user.roles\<close>) holds the rows the join
  table links to; a link whose target row is gone is in no collection, and no operation on
  a collection touches it.

  \<^verbatim>\<open>hard_delete\<close> (\<^verbatim>\<open>session.delete(role)\<close>) removes the role's row; the ORM removes with it
  the rows of \<^verbatim>\<open>role_privileges\<close> that belong to the role's \<^verbatim>\<open>privileges\<close> relationship. The
  rows of \<^verbatim>\<open>user_roles\<close> belong to a relationship of the user and stay.
\<close>

definition RoleRepository_hard_delete :: "db \<Rightarrow> RoleORM \<Rightarrow> db" where
  "RoleRepository_hard_delete d role =
     d\<lparr>roles := [r \<leftarrow> roles d. r_id r \<noteq> r_id role],
       role_privileges :=
         [l \<leftarrow> role_privileges d.
            \<not> (fst l = r_id role \<and> snd l \<in> set (map p_id (privileges d)))]\<rparr>"

definition RoleRepository_restore :: "db \<Rightarrow> RoleORM \<Rightarrow> RoleORM \<times> db" where
  "RoleRepository_restore d role =
     (let restored = role\<lparr>r_deleted_at := None\<rparr> in (restored, put_role d restored))"

section \<open>RoleService\<close>

definition require_role :: "db \<Rightarrow> int \<Rightarrow> bool \<Rightarrow> error + RoleORM" where
  "require_role d role_id include_deleted =
     (case RoleRepository_get_by_id d role_id include_deleted of
        Inl e \<Rightarrow> Inl e
      | Inr None \<Rightarrow> Inl (HTTPException 404 ''Role not found'')
      | Inr (Some role) \<Rightarrow>
          if r_deleted_at role \<noteq> None \<and> \<not> include_deleted
          then Inl (HTTPException 404 ''Role not found'')
          else Inr role)"

fun sync_privileges :: "db \<Rightarrow> RoleORM \<Rightarrow> (string \<times> string) list \<Rightarrow> error + db" where
  "sync_privileges d role [] = Inr d"
| "sync_privileges d role ((resource, action) # privilege_specs) =
     (case get_or_create d resource action None of
        Inl e \<Rightarrow> Inl e
      | Inr (privilege, d1) \<Rightarrow>
          sync_privileges (attach_privilege d1 role privilege) role privilege_specs)"

text \<open>
  The service turns the repository's \<^verbatim>\<open>ValueError\<close> into \<^verbatim>\<open>HTTPException(400)\<close>. An
  operation that raises never reaches \<^verbatim>\<open>session.commit()\<close>: its result is the error and
  the database stays as it was.
\<close>

definition RoleService_create_role ::
  "db \<Rightarrow> string \<Rightarrow> (string \<times> string) list option \<Rightarrow> bool \<Rightarrow> error + (RoleORM option \<times> db)" where
  "RoleService_create_role d name privs is_superuser =
     (case create d name None is_superuser of
        Inl (ValueError msg) \<Rightarrow> Inl (HTTPException 400 msg)
      | Inl e \<Rightarrow> Inl e
      | Inr (role, d1) \<Rightarrow>
          (case (case privs of
                   None \<Rightarrow> Inr d1
                 | Some specs \<Rightarrow> if specs = [] then Inr d1 else sync_privileges d1 role specs) of
             Inl e \<Rightarrow> Inl e
           | Inr d2 \<Rightarrow>
               (case RoleRepository_get_by_id d2 (r_id role) False of
                  Inl e \<Rightarrow> Inl e
                | Inr found \<Rightarrow> Inr (found, d2))))"

definition RoleService_update_role ::
  "db \<Rightarrow> int \<Rightarrow> string option \<Rightarrow> (string \<times> string) list option \<Rightarrow> bool option \<Rightarrow>
   error + (RoleORM option \<times> db)" where
  "RoleService_update_role d role_id name privs is_superuser =
     (case require_role d role_id False of
        Inl e \<Rightarrow> Inl e
      | Inr role \<Rightarrow>
          (case RoleRepository_update_role d role name is_superuser of
             Inl (ValueError msg) \<Rightarrow> Inl (HTTPException 400 msg)
           | Inl e \<Rightarrow> Inl e
           | Inr (updated_role, d1) \<Rightarrow>
               (case (case privs of
                        None \<Rightarrow> Inr d1
                      | Some specs \<Rightarrow>
                          sync_privileges
                            (d1\<lparr>role_privileges :=
                                  [l \<leftarrow> role_privileges d1.
                                     \<not> (fst l = r_id updated_role \<and>
                                        snd l \<in> set (map p_id (privileges d1)))]\<rparr>)
                            updated_role specs) of
                  Inl e \<Rightarrow> Inl e
                | Inr d2 \<Rightarrow>
                    (case RoleRepository_get_by_id d2 (r_id updated_role) False of
                       Inl e \<Rightarrow> Inl e
                     | Inr found \<Rightarrow> Inr (found, d2)))))"

definition RoleService_delete_role :: "db \<Rightarrow> int \<Rightarrow> bool \<Rightarrow> real \<Rightarrow> error + db" where
  "RoleService_delete_role d role_id hard now =
     (case require_role d role_id True of
        Inl e \<Rightarrow> Inl e
      | Inr role \<Rightarrow>
          if hard then Inr (RoleRepository_hard_delete d role)
          else Inr (RoleRepository_soft_delete d role now))"

definition RoleService_restore_role :: "db \<Rightarrow> int \<Rightarrow> error + (RoleORM \<times> db)" where
  "RoleService_restore_role d role_id =
     (case require_role d role_id True of
        Inl e \<Rightarrow> Inl e
      | Inr role \<Rightarrow>
          if r_deleted_at role = None then Inr (role, d)
          else Inr (RoleRepository_restore d role))"

text \<open>
  The role operations of the service, and the database after one of them: the new state
  when it commits, the old state when it raises.
\<close>

datatype role_op =
    CreateRole string "(string \<times> string) list option" bool
  | UpdateRole int "string option" "(string \<times> string) list option" "bool option"
  | SoftDeleteRole int real
  | HardDeleteRole int
  | RestoreRole int

fun committed :: "db \<Rightarrow> error + ('a \<times> db) \<Rightarrow> db" where
  "committed d (Inl e) = d"
| "committed d (Inr (x, d')) = d'"

fun role_step :: "db \<Rightarrow> role_op \<Rightarrow> db" where
  "role_step d (CreateRole name privs is_superuser) =
     committed d (RoleService_create_role d name privs is_superuser)"
| "role_step d (UpdateRole role_id name privs is_superuser) =
     committed d (RoleService_update_role d role_id name privs is_superuser)"
| "role_step d (SoftDeleteRole role_id now) =
     (case RoleService_delete_role d role_id False now of Inl e \<Rightarrow> d | Inr d' \<Rightarrow> d')"
| "role_step d (HardDeleteRole role_id) =
     (case RoleService_delete_role d role_id True 0 of Inl e \<Rightarrow> d | Inr d' \<Rightarrow> d')"
| "role_step d (RestoreRole role_id) = committed d (RoleService_restore_role d role_id)"

text \<open>The invariant of the specification, and the one the code keeps.\<close>

definition at_most_one_active_superuser :: "db \<Rightarrow> bool" where
  "at_most_one_active_superuser d \<longleftrightarrow>
     length [r \<leftarrow> roles d. r_is_superuser r \<and> r_deleted_at r = None] \<le> 1"

definition at_most_one_superuser :: "db \<Rightarrow> bool" where
  "at_most_one_superuser d \<longleftrightarrow> length [r \<leftarrow> roles d. r_is_superuser r] \<le> 1"

text \<open>
  The invariant of the role table that every role operation keeps: unique ids and at most
  one role with the superuser flag.
\<close>

definition role_inv :: "db \<Rightarrow> bool" where
  "role_inv d \<longleftrightarrow> distinct (map r_id (roles d)) \<and> at_most_one_superuser d"

section \<open>UserRepository\<close>

definition get_by_email :: "db \<Rightarrow> string \<Rightarrow> error + UserORM option" where
  "get_by_email d email =
     scalar_one_or_none [u \<leftarrow> users d. u_email u = email \<and> u_deleted_at u = None]"

definition UserRepository_get_by_id :: "db \<Rightarrow> int \<Rightarrow> error + UserORM option" where
  "UserRepository_get_by_id d user_id =
     scalar_one_or_none [u \<leftarrow> users d. u_id u = user_id \<and> u_deleted_at u = None]"

definition get_by_id_include_deleted :: "db \<Rightarrow> int \<Rightarrow> error + UserORM option" where
  "get_by_id_include_deleted d user_id = scalar_one_or_none [u \<leftarrow> users d. u_id u = user_id]"

text \<open>
  \<^verbatim>\<open>create_user\<close>. The password hash \<^verbatim>\<open>get_password_hash\<close> (of \<^verbatim>\<open>app.core.security\<close>) is the
  parameter \<open>get_password_hash\<close>. The roles are selected by id alone. The flush inserts the
  user (refused when the unique \<^verbatim>\<open>users.email\<close> is taken) and one link per role.
\<close>

definition create_user ::
  "(string \<Rightarrow> string) \<Rightarrow> db \<Rightarrow> string \<Rightarrow> string \<Rightarrow> bool \<Rightarrow> int list option \<Rightarrow>
   error + (UserORM \<times> db)" where
  "create_user get_password_hash d email password is_blocked role_ids =
     (let selected =
        (case role_ids of
           None \<Rightarrow> []
         | Some ids \<Rightarrow> if ids = [] then [] else [r \<leftarrow> roles d. r_id r \<in> set ids])
      in
        if \<exists>u \<in> set (users d). u_email u = email then Inl IntegrityError
        else
          let user =
            \<lparr>u_id = next_id (map u_id (users d)), u_email = email,
             u_hashed_password = get_password_hash password, u_is_active = True,
             u_is_blocked = is_blocked, u_deleted_at = None\<rparr>
          in Inr (user,
                  d\<lparr>users := users d @ [user],
                    user_roles := user_roles d @ map (\<lambda>r. (u_id user, r_id r)) selected\<rparr>))"

definition put_user :: "db \<Rightarrow> UserORM \<Rightarrow> db" where
  "put_user d user = d\<lparr>users := map (\<lambda>u. if u_id u = u_id user then user else u) (users d)\<rparr>"

fun append_missing_links :: "(int \<times> int) list \<Rightarrow> int \<Rightarrow> int list \<Rightarrow> (int \<times> int) list" where
  "append_missing_links links user_id [] = links"
| "append_missing_links links user_id (role_id # role_ids) =
     append_missing_links
       (if (user_id, role_id) \<in> set links then links else links @ [(user_id, role_id)])
       user_id role_ids"

definition attach_roles :: "db \<Rightarrow> UserORM \<Rightarrow> int list \<Rightarrow> db" where
  "attach_roles d user role_ids =
     d\<lparr>user_roles :=
         append_missing_links (user_roles d) (u_id user)
           (map r_id [r \<leftarrow> roles d. r_id r \<in> set role_ids \<and> r_deleted_at r = None])\<rparr>"

definition detach_roles :: "db \<Rightarrow> UserORM \<Rightarrow> int list \<Rightarrow> db" where
  "detach_roles d user role_ids =
     d\<lparr>user_roles :=
         [l \<leftarrow> user_roles d.
            \<not> (fst l = u_id user \<and> snd l \<in> set role_ids \<and> snd l \<in> set (map r_id (roles d)))]\<rparr>"

definition UserRepository_update_user ::
  "db \<Rightarrow> UserORM \<Rightarrow> string option \<Rightarrow> int list option \<Rightarrow> error + (UserORM \<times> db)" where
  "UserRepository_update_user d user email role_ids =
     (let user1 = (case email of
                     None \<Rightarrow> user
                   | Some e \<Rightarrow> if e \<noteq> [] then user\<lparr>u_email := e\<rparr> else user)
      in
        if u_email user1 \<noteq> u_email user \<and>
           (\<exists>u \<in> set (users d). u_id u \<noteq> u_id user1 \<and> u_email u = u_email user1)
        then Inl IntegrityError
        else
          let d1 = put_user d user1 in
          (case role_ids of
             None \<Rightarrow> Inr (user1, d1)
           | Some ids \<Rightarrow>
               Inr (user1,
                    d1\<lparr>user_roles :=
                         [l \<leftarrow> user_roles d1.
                            \<not> (fst l = u_id user1 \<and> snd l \<in> set (map r_id (roles d1)))] @
                         map (\<lambda>r. (u_id user1, r_id r))
                           [r \<leftarrow> roles d1. r_id r \<in> set ids \<and> r_deleted_at r = None]\<rparr>)))"

definition set_block_status :: "db \<Rightarrow> UserORM \<Rightarrow> bool \<Rightarrow> UserORM \<times> db" where
  "set_block_status d user blocked =
     (let user1 = user\<lparr>u_is_blocked := blocked\<rparr> in (user1, put_user d user1))"

definition UserRepository_reset_password ::
  "(string \<Rightarrow> string) \<Rightarrow> db \<Rightarrow> UserORM \<Rightarrow> string \<Rightarrow> UserORM \<times> db" where
  "UserRepository_reset_password get_password_hash d user password =
     (let user1 = user\<lparr>u_hashed_password := get_password_hash password\<rparr>
      in (user1, put_user d user1))"

definition UserRepository_soft_delete :: "db \<Rightarrow> UserORM \<Rightarrow> real \<Rightarrow> UserORM \<times> db" where
  "UserRepository_soft_delete d user now =
     (let user1 = user\<lparr>u_deleted_at := Some now, u_is_active := False\<rparr>
      in (user1, put_user d user1))"

definition UserRepository_restore :: "db \<Rightarrow> UserORM \<Rightarrow> UserORM \<times> db" where
  "UserRepository_restore d user =
     (let user1 = user\<lparr>u_deleted_at := None, u_is_active := True\<rparr>
      in (user1, put_user d user1))"

text \<open>
  \<^verbatim>\<open>hard_delete\<close> (\<^verbatim>\<open>session.delete(user)\<close>) removes the user's row and, with it, the rows
  of \<^verbatim>\<open>user_roles\<close> that belong to the user's \<^verbatim>\<open>roles\<close> relationship.
\<close>

definition UserRepository_hard_delete :: "db \<Rightarrow> UserORM \<Rightarrow> db" where
  "UserRepository_hard_delete d user =
     d\<lparr>users := [u \<leftarrow> users d. u_id u \<noteq> u_id user],
       user_roles :=
         [l \<leftarrow> user_roles d.
            \<not> (fst l = u_id user \<and> snd l \<in> set (map r_id (roles d)))]\<rparr>"

section \<open>AuthService.authenticate\<close>

text \<open>Python's \<^verbatim>\<open>str\<close> of an int: the decimal digits, with a minus sign below zero.\<close>

fun str_nat :: "nat \<Rightarrow> string" where
  "str_nat n =
     (if n < 10 then [''0123456789'' ! n]
      else str_nat (n div 10) @ [''0123456789'' ! (n mod 10)])"

declare str_nat.simps [simp del]

definition str_int :: "int \<Rightarrow> string" where
  "str_int i = (if i < 0 then CHR ''-'' # str_nat (nat (- i)) else str_nat (nat i))"

text \<open>
  \<^verbatim>\<open>verify_password\<close> and \<^verbatim>\<open>create_access_token\<close> belong to \<^verbatim>\<open>app.core.security\<close>; they are
  the parameters \<open>verify_password\<close> (password, stored hash) and \<open>create_access_token\<close>
  (the claims \<^verbatim>\<open>sub\<close> and \<^verbatim>\<open>email\<close>).
\<close>

definition authenticate ::
  "(string \<Rightarrow> string \<Rightarrow> bool) \<Rightarrow> (string \<Rightarrow> string \<Rightarrow> string) \<Rightarrow> db \<Rightarrow> string \<Rightarrow> string \<Rightarrow>
   error + string" where
  "authenticate verify_password create_access_token d email password =
     (case get_by_email d email of
        Inl e \<Rightarrow> Inl e
      | Inr found \<Rightarrow>
          (case found of
             None \<Rightarrow> Inl (HTTPException 401 ''Invalid credentials'')
           | Some user \<Rightarrow>
               if \<not> verify_password password (u_hashed_password user)
               then Inl (HTTPException 401 ''Invalid credentials'')
               else if u_is_blocked user then Inl (HTTPException 403 ''User is blocked'')
               else Inr (create_access_token (str_int (u_id user)) (u_email user))))"

section \<open>Bootstrap: seed_initial_data\<close>

definition privilege_specs :: "(string \<times> string) list" where
  "privilege_specs =
     [(''users'', ''read''), (''users'', ''insert''), (''users'', ''update''),
      (''users'', ''delete''), (''users'', ''block''), (''users'', ''unblock''),
      (''users'', ''reset_password''),
      (''roles'', ''read''), (''roles'', ''insert''), (''roles'', ''update''),
      (''roles'', ''delete''),
      (''privileges'', ''read''), (''privileges'', ''insert''), (''privileges'', ''update''),
      (''privileges'', ''delete'')]"

fun get_or_create_each ::
  "db \<Rightarrow> (string \<times> string) list \<Rightarrow> error + (PrivilegeORM list \<times> db)" where
  "get_or_create_each d [] = Inr ([], d)"
| "get_or_create_each d ((resource, action) # specs) =
     (case get_or_create d resource action None of
        Inl e \<Rightarrow> Inl e
      | Inr (privilege, d1) \<Rightarrow>
          (case get_or_create_each d1 specs of
             Inl e \<Rightarrow> Inl e
           | Inr (found, d2) \<Rightarrow> Inr (privilege # found, d2)))"

definition seed_initial_data :: "(string \<Rightarrow> string) \<Rightarrow> db \<Rightarrow> error + db" where
  "seed_initial_data get_password_hash d =
     (case get_or_create_each d privilege_specs of
        Inl e \<Rightarrow> Inl e
      | Inr (found, d1) \<Rightarrow>
          (case get_by_name d1 ''admin'' of
             Inl e \<Rightarrow> Inl e
           | Inr existing \<Rightarrow>
               (case (case existing of
                        Some admin_role \<Rightarrow> Inr (admin_role, d1)
                      | None \<Rightarrow>
                          (case create d1 ''admin'' None True of
                             Inl e \<Rightarrow> Inl e
                           | Inr (admin_role, d2) \<Rightarrow>
                               Inr (admin_role,
                                    fold (\<lambda>privilege d'. attach_privilege d' admin_role privilege)
                                      found d2))) of
                  Inl e \<Rightarrow> Inl e
                | Inr (admin_role, d3) \<Rightarrow>
                    (case get_by_email d3 ''admin@example.com'' of
                       Inl e \<Rightarrow> Inl e
                     | Inr (Some admin_user) \<Rightarrow> Inr d3
                     | Inr None \<Rightarrow>
                         (case create_user get_password_hash d3 ''admin@example.com''
                                 ''ChangeMe123!'' False
                                 (if r_id admin_role \<noteq> 0 then Some [r_id admin_role] else None) of
                            Inl e \<Rightarrow> Inl e
                          | Inr (admin_user, d4) \<Rightarrow> Inr d4)))))"

section \<open>The cache: AsyncTTLCache and DragonflyCache\<close>

text \<open>
  What \<^verbatim>\<open>UserService\<close> stores in the cache for a user: the dictionary of
  \<^verbatim>\<open>_serialize_user\<close> (without the two server-side timestamps), with the user's roles and
  their privileges as the relationships load them.
\<close>

record privilege_payload =
  pp_id :: int
  pp_resource :: string
  pp_action :: string
  pp_description :: "string option"

record role_payload =
  rp_id :: int
  rp_name :: string
  rp_is_superuser :: bool
  rp_privileges :: "privilege_payload list"

record user_payload =
  up_id :: int
  up_email :: string
  up_is_active :: bool
  up_is_blocked :: bool
  up_deleted_at :: "real option"
  up_roles :: "role_payload list"

text \<open>A cached value: \<^verbatim>\<open>True\<close> for a revoked token, a dictionary for a user.\<close>

datatype cache_value = CBool bool | CUser user_payload

text \<open>
  \<^verbatim>\<open>AsyncTTLCache\<close>, the process-local fallback. Time is \<^verbatim>\<open>time.time()\<close>, in seconds; each
  method takes the time of the call as \<open>now\<close>.
\<close>

record AsyncTTLCache =
  ttl_seconds :: int
  store :: "string \<rightharpoonup> cache_value"
  expirations :: "string \<rightharpoonup> real"

definition pop_key :: "AsyncTTLCache \<Rightarrow> string \<Rightarrow> AsyncTTLCache" where
  "pop_key c key = c\<lparr>store := (store c)(key := None), expirations := (expirations c)(key := None)\<rparr>"

definition AsyncTTLCache_get ::
  "AsyncTTLCache \<Rightarrow> real \<Rightarrow> string \<Rightarrow> cache_value option \<times> AsyncTTLCache" where
  "AsyncTTLCache_get c now key =
     (case expirations c key of
        None \<Rightarrow> (None, pop_key c key)
      | Some expires \<Rightarrow>
          if expires = 0 \<or> expires < now then (None, pop_key c key)
          else (store c key, c))"

definition AsyncTTLCache_set ::
  "AsyncTTLCache \<Rightarrow> real \<Rightarrow> string \<Rightarrow> cache_value \<Rightarrow> int option \<Rightarrow> AsyncTTLCache" where
  "AsyncTTLCache_set c now key v ttl =
     (let ttl_value = (case ttl of
                         None \<Rightarrow> ttl_seconds c
                       | Some t \<Rightarrow> if t = 0 then ttl_seconds c else t)
      in c\<lparr>store := (store c)(key \<mapsto> v),
           expirations := (expirations c)(key \<mapsto> now + real_of_int ttl_value)\<rparr>)"

definition AsyncTTLCache_delete :: "AsyncTTLCache \<Rightarrow> string \<Rightarrow> AsyncTTLCache" where
  "AsyncTTLCache_delete c key = pop_key c key"

text \<open>
  \<^verbatim>\<open>DragonflyCache\<close>: the module-level singleton, one in each process. \<open>client\<close> says
  whether \<^verbatim>\<open>_client\<close> is set. \<^verbatim>\<open>_get_client\<close> builds the client with
  \<^verbatim>\<open>Redis.from_url(url, encoding=None, ...)\<close>, keeps it when \<^verbatim>\<open>ping()\<close> passes and resets it
  to \<^verbatim>\<open>None\<close> on any exception. Two facts of the environment are part of the state:
  \<open>redis_up\<close>, whether the external store is reachable at this moment, and \<open>ping_passes\<close>,
  whether the ping of a client built with \<^verbatim>\<open>encoding=None\<close> passes against a reachable store.
  The latter depends on the installed client library: with \<^verbatim>\<open>encoding=None\<close> the client
  cannot encode a \<^verbatim>\<open>str\<close> argument (\<^verbatim>\<open>str.encode(None, ...)\<close> raises \<^verbatim>\<open>TypeError\<close>), so the
  ping fails where the connection handshake sends text and passes where it sends none.

  In neither case does the store answer a call of this code: every key is a \<^verbatim>\<open>str\<close>, so
  \<^verbatim>\<open>get\<close>, \<^verbatim>\<open>set\<close> and \<^verbatim>\<open>delete\<close> on a set client raise \<^verbatim>\<open>TypeError\<close> when the command is
  packed (\<^verbatim>\<open>ConnectionError\<close> when the store is not reachable). Only the process-local
  fallback ever holds an entry.
\<close>

record DragonflyCache =
  dragonfly_ttl_seconds :: int
  client :: bool
  fallback :: AsyncTTLCache
  redis_up :: bool
  ping_passes :: bool

definition get_client :: "DragonflyCache \<Rightarrow> bool \<times> DragonflyCache" where
  "get_client c =
     (if client c then (True, c)
      else if redis_up c \<and> ping_passes c then (True, c\<lparr>client := True\<rparr>)
      else (False, c\<lparr>client := False\<rparr>))"

definition client_error :: "DragonflyCache \<Rightarrow> error" where
  "client_error c = (if redis_up c then TypeError else ConnectionError)"

definition DragonflyCache_get ::
  "DragonflyCache \<Rightarrow> real \<Rightarrow> string \<Rightarrow> (error + cache_value option) \<times> DragonflyCache" where
  "DragonflyCache_get c now key =
     (case get_client c of
        (False, c1) \<Rightarrow>
          (case AsyncTTLCache_get (fallback c1) now key of
             (v, f) \<Rightarrow> (Inr v, c1\<lparr>fallback := f\<rparr>))
      | (True, c1) \<Rightarrow> (Inl (client_error c1), c1))"

definition DragonflyCache_set ::
  "DragonflyCache \<Rightarrow> real \<Rightarrow> string \<Rightarrow> cache_value \<Rightarrow> int option \<Rightarrow>
   (error + unit) \<times> DragonflyCache" where
  "DragonflyCache_set c now key v ttl =
     (case get_client c of
        (has_client, c1) \<Rightarrow>
          let ttl_value = (case ttl of
                             None \<Rightarrow> dragonfly_ttl_seconds c1
                           | Some t \<Rightarrow> if t = 0 then dragonfly_ttl_seconds c1 else t)
          in
            if \<not> has_client
            then (Inr (), c1\<lparr>fallback := AsyncTTLCache_set (fallback c1) now key v (Some ttl_value)\<rparr>)
            else (Inl (client_error c1), c1))"

definition DragonflyCache_delete ::
  "DragonflyCache \<Rightarrow> string \<Rightarrow> (error + unit) \<times> DragonflyCache" where
  "DragonflyCache_delete c key =
     (case get_client c of
        (False, c1) \<Rightarrow> (Inr (), c1\<lparr>fallback := AsyncTTLCache_delete (fallback c1) key\<rparr>)
      | (True, c1) \<Rightarrow> (Inl (client_error c1), c1))"

text \<open>
  The settings the modelled code reads, and the cache a process starts with: no client,
  an empty fallback, the store reachable or not; the client library is one whose ping
  does not pass.
\<close>

record Settings =
  access_token_expire_minutes :: int
  cache_ttl_seconds :: int

definition new_cache :: "Settings \<Rightarrow> bool \<Rightarrow> DragonflyCache" where
  "new_cache settings up =
     \<lparr>dragonfly_ttl_seconds = cache_ttl_seconds settings, client = False,
      fallback = \<lparr>ttl_seconds = cache_ttl_seconds settings, store = Map.empty,
                  expirations = Map.empty\<rparr>,
      redis_up = up, ping_passes = False\<rparr>"

section \<open>TokenBlocklistService\<close>

definition revoke ::
  "Settings \<Rightarrow> DragonflyCache \<Rightarrow> real \<Rightarrow> string \<Rightarrow> (error + unit) \<times> DragonflyCache" where
  "revoke settings c now token =
     DragonflyCache_set c now (''token:block:'' @ token) (CBool True)
       (Some (access_token_expire_minutes settings * 60))"

text \<open>Python's \<^verbatim>\<open>bool\<close> of what the cache returns.\<close>

fun truthy :: "cache_value option \<Rightarrow> bool" where
  "truthy None = False"
| "truthy (Some (CBool b)) = b"
| "truthy (Some (CUser p)) = True"

definition is_revoked ::
  "DragonflyCache \<Rightarrow> real \<Rightarrow> string \<Rightarrow> (error + bool) \<times> DragonflyCache" where
  "is_revoked c now token =
     (case DragonflyCache_get c now (''token:block:'' @ token) of
        (Inl e, c1) \<Rightarrow> (Inl e, c1)
      | (Inr v, c1) \<Rightarrow> (Inr (truthy v), c1))"

section \<open>UserService\<close>

definition serialize_privilege :: "PrivilegeORM \<Rightarrow> privilege_payload" where
  "serialize_privilege privilege =
     \<lparr>pp_id = p_id privilege, pp_resource = p_resource privilege,
      pp_action = p_action privilege, pp_description = p_description privilege\<rparr>"

definition serialize_role :: "db \<Rightarrow> RoleORM \<Rightarrow> role_payload" where
  "serialize_role d role =
     \<lparr>rp_id = r_id role, rp_name = r_name role, rp_is_superuser = r_is_superuser role,
      rp_privileges =
        [serialize_privilege p.
           p \<leftarrow> privileges d, (r_id role, p_id p) \<in> set (role_privileges d)]\<rparr>"

definition serialize_user :: "db \<Rightarrow> UserORM \<Rightarrow> user_payload" where
  "serialize_user d user =
     \<lparr>up_id = u_id user, up_email = u_email user, up_is_active = u_is_active user,
      up_is_blocked = u_is_blocked user, up_deleted_at = u_deleted_at user,
      up_roles =
        [serialize_role d r. r \<leftarrow> roles d, (u_id user, r_id r) \<in> set (user_roles d)]\<rparr>"

text \<open>
  What \<^verbatim>\<open>get_by_id\<close> and \<^verbatim>\<open>get_by_email\<close> return: the object rebuilt from the cached
  dictionary (\<^verbatim>\<open>_deserialize_user\<close>), or the row loaded from the database.
\<close>

datatype returned_user = Cached user_payload | Loaded UserORM

fun is_blocked :: "returned_user \<Rightarrow> bool" where
  "is_blocked (Cached p) = up_is_blocked p"
| "is_blocked (Loaded u) = u_is_blocked u"

text \<open>
  The common body of \<^verbatim>\<open>get_by_id\<close> and \<^verbatim>\<open>get_by_email\<close>: a truthy cached value is
  deserialized (which fails with \<^verbatim>\<open>AttributeError\<close> on a value that is no dictionary);
  otherwise the repository is asked, and a user it finds is cached under the key with the
  cache's default time to live.
\<close>

definition cached_lookup ::
  "DragonflyCache \<Rightarrow> real \<Rightarrow> db \<Rightarrow> string \<Rightarrow> (error + UserORM option) \<Rightarrow>
   (error + returned_user option) \<times> DragonflyCache" where
  "cached_lookup c now d cache_key from_repo =
     (case DragonflyCache_get c now cache_key of
        (Inl e, c1) \<Rightarrow> (Inl e, c1)
      | (Inr (Some (CUser p)), c1) \<Rightarrow> (Inr (Some (Cached p)), c1)
      | (Inr (Some (CBool True)), c1) \<Rightarrow> (Inl AttributeError, c1)
      | (Inr _, c1) \<Rightarrow>
          (case from_repo of
             Inl e \<Rightarrow> (Inl e, c1)
           | Inr None \<Rightarrow> (Inr None, c1)
           | Inr (Some user) \<Rightarrow>
               (case DragonflyCache_set c1 now cache_key (CUser (serialize_user d user)) None of
                  (Inl e, c2) \<Rightarrow> (Inl e, c2)
                | (Inr _, c2) \<Rightarrow> (Inr (Some (Loaded user)), c2))))"

definition UserService_get_by_id ::
  "DragonflyCache \<Rightarrow> real \<Rightarrow> db \<Rightarrow> int \<Rightarrow> (error + returned_user option) \<times> DragonflyCache" where
  "UserService_get_by_id c now d user_id =
     cached_lookup c now d (''user:id:'' @ str_int user_id) (UserRepository_get_by_id d user_id)"

definition UserService_get_by_email ::
  "DragonflyCache \<Rightarrow> real \<Rightarrow> db \<Rightarrow> string \<Rightarrow> (error + returned_user option) \<times> DragonflyCache" where
  "UserService_get_by_email c now d email =
     cached_lookup c now d (''user:email:'' @ email) (get_by_email d email)"

definition invalidate_cache :: "DragonflyCache \<Rightarrow> UserORM \<Rightarrow> (error + unit) \<times> DragonflyCache" where
  "invalidate_cache c user =
     (case DragonflyCache_delete c (''user:email:'' @ u_email user) of
        (Inl e, c1) \<Rightarrow> (Inl e, c1)
      | (Inr _, c1) \<Rightarrow>
          if u_id user \<noteq> 0 then DragonflyCache_delete c1 (''user:id:'' @ str_int (u_id user))
          else (Inr (), c1))"

definition require_user :: "db \<Rightarrow> int \<Rightarrow> bool \<Rightarrow> error + UserORM" where
  "require_user d user_id include_deleted =
     (case (if include_deleted then get_by_id_include_deleted d user_id
            else UserRepository_get_by_id d user_id) of
        Inl e \<Rightarrow> Inl e
      | Inr None \<Rightarrow> Inl (HTTPException 404 ''User not found'')
      | Inr (Some user) \<Rightarrow>
          if \<not> include_deleted \<and> u_deleted_at user \<noteq> None
          then Inl (HTTPException 404 ''User not found'')
          else Inr user)"

text \<open>
  Every mutating method has the shape: find the user, change the row through the
  repository, \<^verbatim>\<open>_invalidate_cache\<close> with the changed object, commit. \<open>invalidate_commit\<close> is
  the tail: the result is the changed user with the committed database, or the error of
  the cache with the database as it was; the cache keeps what was done to it either way.
\<close>

definition invalidate_commit ::
  "DragonflyCache \<Rightarrow> db \<Rightarrow> UserORM \<times> db \<Rightarrow> (error + UserORM) \<times> DragonflyCache \<times> db" where
  "invalidate_commit c d changed =
     (case invalidate_cache c (fst changed) of
        (Inl e, c1) \<Rightarrow> (Inl e, c1, d)
      | (Inr _, c1) \<Rightarrow> (Inr (fst changed), c1, snd changed))"

definition UserService_update_user ::
  "DragonflyCache \<Rightarrow> db \<Rightarrow> int \<Rightarrow> string option \<Rightarrow> int list option \<Rightarrow>
   (error + UserORM) \<times> DragonflyCache \<times> db" where
  "UserService_update_user c d user_id email role_ids =
     (case require_user d user_id False of
        Inl e \<Rightarrow> (Inl e, c, d)
      | Inr user \<Rightarrow>
          (case UserRepository_update_user d user email role_ids of
             Inl e \<Rightarrow> (Inl e, c, d)
           | Inr updated \<Rightarrow> invalidate_commit c d updated))"

definition block_user ::
  "DragonflyCache \<Rightarrow> db \<Rightarrow> int \<Rightarrow> (error + UserORM) \<times> DragonflyCache \<times> db" where
  "block_user c d user_id =
     (case require_user d user_id False of
        Inl e \<Rightarrow> (Inl e, c, d)
      | Inr user \<Rightarrow> invalidate_commit c d (set_block_status d user True))"

definition unblock_user ::
  "DragonflyCache \<Rightarrow> db \<Rightarrow> int \<Rightarrow> (error + UserORM) \<times> DragonflyCache \<times> db" where
  "unblock_user c d user_id =
     (case require_user d user_id False of
        Inl e \<Rightarrow> (Inl e, c, d)
      | Inr user \<Rightarrow> invalidate_commit c d (set_block_status d user False))"

definition UserService_reset_password ::
  "(string \<Rightarrow> string) \<Rightarrow> DragonflyCache \<Rightarrow> db \<Rightarrow> int \<Rightarrow> string \<Rightarrow>
   (error + UserORM) \<times> DragonflyCache \<times> db" where
  "UserService_reset_password get_password_hash c d user_id new_password =
     (case require_user d user_id False of
        Inl e \<Rightarrow> (Inl e, c, d)
      | Inr user \<Rightarrow>
          invalidate_commit c d
            (UserRepository_reset_password get_password_hash d user new_password))"

definition UserService_create_user ::
  "(string \<Rightarrow> string) \<Rightarrow> DragonflyCache \<Rightarrow> db \<Rightarrow> string \<Rightarrow> string \<Rightarrow> int list option \<Rightarrow>
   (error + UserORM) \<times> DragonflyCache \<times> db" where
  "UserService_create_user get_password_hash c d email password role_ids =
     (case create_user get_password_hash d email password False role_ids of
        Inl e \<Rightarrow> (Inl e, c, d)
      | Inr created \<Rightarrow> invalidate_commit c d created)"

definition delete_user ::
  "DragonflyCache \<Rightarrow> db \<Rightarrow> int \<Rightarrow> bool \<Rightarrow> real \<Rightarrow> (error + UserORM) \<times> DragonflyCache \<times> db" where
  "delete_user c d user_id hard now =
     (case require_user d user_id True of
        Inl e \<Rightarrow> (Inl e, c, d)
      | Inr user \<Rightarrow>
          if hard then invalidate_commit c d (user, UserRepository_hard_delete d user)
          else invalidate_commit c d (user, snd (UserRepository_soft_delete d user now)))"

definition restore_user ::
  "DragonflyCache \<Rightarrow> db \<Rightarrow> int \<Rightarrow> (error + UserORM) \<times> DragonflyCache \<times> db" where
  "restore_user c d user_id =
     (case require_user d user_id True of
        Inl e \<Rightarrow> (Inl e, c, d)
      | Inr user \<Rightarrow>
          if u_deleted_at user = None then (Inr user, c, d)
          else invalidate_commit c d (UserRepository_restore d user))"

definition assign_roles ::
  "DragonflyCache \<Rightarrow> db \<Rightarrow> int \<Rightarrow> int list \<Rightarrow> (error + UserORM) \<times> DragonflyCache \<times> db" where
  "assign_roles c d user_id role_ids =
     (case require_user d user_id False of
        Inl e \<Rightarrow> (Inl e, c, d)
      | Inr user \<Rightarrow> invalidate_commit c d (user, attach_roles d user role_ids))"

definition remove_roles ::
  "DragonflyCache \<Rightarrow> db \<Rightarrow> int \<Rightarrow> int list \<Rightarrow> (error + UserORM) \<times> DragonflyCache \<times> db" where
  "remove_roles c d user_id role_ids =
     (case require_user d user_id False of
        Inl e \<Rightarrow> (Inl e, c, d)
      | Inr user \<Rightarrow> invalidate_commit c d (user, detach_roles d user role_ids))"

section \<open>The calls that reach the cache\<close>




section \<open>Tokens and get_current_user\<close>

text \<open>
  The claims of a decoded token: \<open>claim_sub\<close> is \<^verbatim>\<open>int(payload.get("sub"))\<close>, with \<open>None\<close>
  when that raises \<^verbatim>\<open>ValueError\<close> or \<^verbatim>\<open>TypeError\<close>; \<open>claim_exp\<close> is the expiry time.
\<close>

record token_payload =
  claim_sub :: "int option"
  claim_email :: string
  claim_exp :: real

text \<open>
  Modelled from the spec: \<^verbatim>\<open>create_access_token\<close> and \<^verbatim>\<open>decode_access_token\<close> of
  \<^verbatim>\<open>app.core.security\<close>, which is not among the sources. The issuer embeds the user's
  identity and email with the expiry "now + access_token_expire_minutes"; the verifier
  checks signature and expiry and fails on a signature mismatch, a malformed payload or
  expiry. Checking the signature and reading the payload is the signing library's part and
  is the parameter \<open>verify_signature\<close> (\<open>None\<close> for a token it refuses).
\<close>

definition issued_payload :: "Settings \<Rightarrow> real \<Rightarrow> int \<Rightarrow> string \<Rightarrow> token_payload" where
  "issued_payload settings now user_id email =
     \<lparr>claim_sub = Some user_id, claim_email = email,
      claim_exp = now + 60 * real_of_int (access_token_expire_minutes settings)\<rparr>"

definition decode_access_token ::
  "(string \<Rightarrow> token_payload option) \<Rightarrow> real \<Rightarrow> string \<Rightarrow> token_payload option" where
  "decode_access_token verify_signature now token =
     (case verify_signature token of
        None \<Rightarrow> None
      | Some payload \<Rightarrow> if claim_exp payload \<le> now then None else Some payload)"

definition credentials_exception :: error where
  "credentials_exception = HTTPException 401 ''Could not validate credentials''"

text \<open>
  \<^verbatim>\<open>get_current_user\<close>. \<open>decode\<close> is \<^verbatim>\<open>decode_access_token\<close> at the time of the request,
  \<open>None\<close> when it raises.
\<close>

definition get_current_user ::
  "(string \<Rightarrow> token_payload option) \<Rightarrow> DragonflyCache \<Rightarrow> real \<Rightarrow> db \<Rightarrow> string \<Rightarrow>
   (error + returned_user) \<times> DragonflyCache" where
  "get_current_user decode c now d token =
     (case decode token of
        None \<Rightarrow> (Inl credentials_exception, c)
      | Some payload \<Rightarrow>
          (case claim_sub payload of
             None \<Rightarrow> (Inl credentials_exception, c)
           | Some user_id \<Rightarrow>
               (case is_revoked c now token of
                  (Inl e, c1) \<Rightarrow> (Inl e, c1)
                | (Inr True, c1) \<Rightarrow> (Inl credentials_exception, c1)
                | (Inr False, c1) \<Rightarrow>
                    (case UserService_get_by_id c1 now d user_id of
                       (Inl e, c2) \<Rightarrow> (Inl e, c2)
                     | (Inr None, c2) \<Rightarrow> (Inl credentials_exception, c2)
                     | (Inr (Some user), c2) \<Rightarrow>
                         if is_blocked user then (Inl credentials_exception, c2)
                         else (Inr user, c2)))))"

section \<open>States for the scenarios\<close>

text \<open>A database for the scenario of the auditor: one role with the privilege (users, read).\<close>

definition auditor_db :: db where
  "auditor_db =
     \<lparr>privileges =
        [\<lparr>p_id = 1, p_resource = ''users'', p_action = ''read'', p_description = None,
          p_deleted_at = None\<rparr>],
      roles = [\<lparr>r_id = 1, r_name = ''auditor'', r_is_superuser = False, r_deleted_at = None\<rparr>],
      users =
        [\<lparr>u_id = 1, u_email = ''auditor@example.com'', u_hashed_password = ''h'',
          u_is_active = True, u_is_blocked = False, u_deleted_at = None\<rparr>],
      user_roles = [(1, 1)],
      role_privileges = [(1, 1)]\<rparr>"

definition audit_role :: RoleORM where
  "audit_role = \<lparr>r_id = 1, r_name = ''auditor'', r_is_superuser = False, r_deleted_at = None\<rparr>"

definition read_privilege :: PrivilegeORM where
  "read_privilege =
     \<lparr>p_id = 1, p_resource = ''users'', p_action = ''read'', p_description = None,
      p_deleted_at = None\<rparr>"

text \<open>A database with one user, for the login scenarios.\<close>

definition alice :: UserORM where
  "alice =
     \<lparr>u_id = 1, u_email = ''alice@example.com'', u_hashed_password = ''secret'',
      u_is_active = True, u_is_blocked = False, u_deleted_at = None\<rparr>"

definition alice_db :: db where
  "alice_db = empty_db\<lparr>users := [alice]\<rparr>"

text \<open>A database whose only privilege, (users, read), was soft-deleted at time 5.\<close>

definition soft_deleted_privilege_db :: db where
  "soft_deleted_privilege_db =
     empty_db\<lparr>privileges := [read_privilege\<lparr>p_deleted_at := Some 5\<rparr>]\<rparr>"

text \<open>States and histories of the role table for the scenarios below.\<close>

definition two_superusers_db :: db where
  "two_superusers_db =
     empty_db\<lparr>roles :=
       [\<lparr>r_id = 1, r_name = ''old-admin'', r_is_superuser = True, r_deleted_at = Some 3\<rparr>,
        \<lparr>r_id = 2, r_name = ''admin'', r_is_superuser = True, r_deleted_at = None\<rparr>]\<rparr>"

definition deleted_superuser_db :: db where
  "deleted_superuser_db =
     empty_db\<lparr>roles :=
       [\<lparr>r_id = 1, r_name = ''old-admin'', r_is_superuser = True, r_deleted_at = Some 3\<rparr>]\<rparr>"

definition role_history :: "role_op list" where
  "role_history =
     [CreateRole ''admin'' None True, SoftDeleteRole 1 3, CreateRole ''root'' None True,
      RestoreRole 1, UpdateRole 1 None None (Some False), CreateRole ''root'' None True]"

definition admin_and_staff_db :: db where
  "admin_and_staff_db =
     empty_db\<lparr>roles :=
       [\<lparr>r_id = 1, r_name = ''admin'', r_is_superuser = True, r_deleted_at = None\<rparr>,
        \<lparr>r_id = 2, r_name = ''staff'', r_is_superuser = False, r_deleted_at = None\<rparr>]\<rparr>"

definition staff_role :: RoleORM where
  "staff_role = \<lparr>r_id = 2, r_name = ''staff'', r_is_superuser = False, r_deleted_at = None\<rparr>"

text \<open>The state the bootstrap is expected to leave on empty storage.\<close>

definition seeded_privileges :: "PrivilegeORM list" where
  "seeded_privileges =
     map (\<lambda>(i, resource, action).
            \<lparr>p_id = i, p_resource = resource, p_action = action, p_description = None,
             p_deleted_at = None\<rparr>)
       (zip [1, 2, 3, 4, 5, 6, 7, 8, 9, 10, 11, 12, 13, 14, 15] privilege_specs)"

definition admin_role :: RoleORM where
  "admin_role = \<lparr>r_id = 1, r_name = ''admin'', r_is_superuser = True, r_deleted_at = None\<rparr>"

definition admin_user :: "(string \<Rightarrow> string) \<Rightarrow> UserORM" where
  "admin_user get_password_hash =
     \<lparr>u_id = 1, u_email = ''admin@example.com'',
      u_hashed_password = get_password_hash ''ChangeMe123!'', u_is_active = True,
      u_is_blocked = False, u_deleted_at = None\<rparr>"

definition seeded_db :: "(string \<Rightarrow> string) \<Rightarrow> db" where
  "seeded_db get_password_hash =
     \<lparr>privileges = seeded_privileges, roles = [admin_role],
      users = [admin_user get_password_hash], user_roles = [(1, 1)],
      role_privileges = map (\<lambda>p. (1, p_id p)) seeded_privileges\<rparr>"

text \<open>Settings, users and tokens for the scenarios of the cache.\<close>

definition default_settings :: Settings where
  "default_settings = \<lparr>access_token_expire_minutes = 30, cache_ttl_seconds = 30\<rparr>"

definition blocked_alice_db :: db where
  "blocked_alice_db = empty_db\<lparr>users := [alice\<lparr>u_is_blocked := True\<rparr>]\<rparr>"

definition alice_payload :: token_payload where
  "alice_payload =
     \<lparr>claim_sub = Some 1, claim_email = ''alice@example.com'', claim_exp = 1900\<rparr>"

definition alice_token :: string where
  "alice_token = ''token-of-alice''"

definition verify_alice_token :: "string \<Rightarrow> token_payload option" where
  "verify_alice_token token =
     (if token = alice_token
      then Some (issued_payload default_settings 50 1 ''alice@example.com'')
      else None)"

definition renamed_alice_world :: "(error + UserORM) \<times> DragonflyCache \<times> db" where
  "renamed_alice_world =
     UserService_update_user
       (snd (UserService_get_by_email (new_cache default_settings False) 100 alice_db
               ''alice@example.com''))
       alice_db 1 (Some ''alice@new.example.com'') None"

text \<open>
  Two processes and one database: one process has read alice through its cache at time 100;
  the other, with a cache of its own, serves the request that blocks her.
\<close>

definition alice_cached :: DragonflyCache where
  "alice_cached = snd (UserService_get_by_id (new_cache default_settings False) 100 alice_db 1)"

definition blocked_elsewhere :: "(error + UserORM) \<times> DragonflyCache \<times> db" where
  "blocked_elsewhere = block_user (new_cache default_settings False) alice_db 1"

text \<open>The same request served by the process that has her in its cache.\<close>

definition blocked_here :: "(error + UserORM) \<times> DragonflyCache \<times> db" where
  "blocked_here = block_user alice_cached alice_db 1"



section \<open>Query results\<close>

lemma scalar_one_or_none_Some:
  "scalar_one_or_none xs = Inr (Some x) \<longleftrightarrow> xs = [x]"
  by (cases xs rule: scalar_one_or_none.cases) auto

lemma scalar_one_or_none_error: "scalar_one_or_none xs = Inl e \<Longrightarrow> e = MultipleResultsFound"
  by (cases xs rule: scalar_one_or_none.cases) auto

section \<open>The privilege evaluator decides as specified\<close>

lemma pos_length_concat_map:
  "(0 < length (concat (map f xs))) = (\<exists>x \<in> set xs. 0 < length (f x))"
  by (induction xs) auto

lemma pos_length_if: "(0 < length (if c then ys else [])) = (c \<and> 0 < length ys)"
  by simp

lemma pos_length_single: "(0 < length [y]) = True"
  by simp

lemma user_is_superuser_iff: "user_is_superuser d user_id \<longleftrightarrow> holds_superuser_role d user_id"
  unfolding user_is_superuser_def holds_superuser_role_def
  apply (simp only: pos_length_concat_map pos_length_if pos_length_single)
  apply (simp only: simp_thms)
  apply force
  done

lemma user_has_privilege_iff:
  "user_has_privilege d user_id resource action \<longleftrightarrow>
   has_matching_privilege d user_id resource action"
  unfolding user_has_privilege_def has_matching_privilege_def
  apply (simp only: pos_length_concat_map pos_length_if pos_length_single)
  apply (simp only: simp_thms)
  apply force
  done

text \<open>
  C1. For every database, user id, resource and action, \<open>assert_privilege\<close> returns
  without error when the user holds a non-deleted role with the superuser flag; otherwise
  it returns without error exactly when the non-deleted user is assigned a non-deleted
  role linked to a non-deleted privilege whose resource and action are equal, as strings,
  to the requested ones; otherwise it raises the 403 error.
\<close>

theorem assert_privilege_decision:
  "assert_privilege d user_id resource action =
     (if holds_superuser_role d user_id then Inr ()
      else if has_matching_privilege d user_id resource action then Inr ()
      else Inl (HTTPException 403 (''Missing privilege '' @ action @ '' on '' @ resource)))"
  by (simp add: assert_privilege_def user_is_superuser_iff user_has_privilege_iff)

text \<open>
  The auditor scenario: a role with the one privilege (users, read). Reading users is
  allowed, inserting is forbidden, and so is reading the resource \<open>user\<close>, whose name is
  a prefix of \<open>users\<close>.
\<close>

theorem assert_privilege_auditor:
  "assert_privilege auditor_db 1 ''users'' ''read'' = Inr () \<and>
   assert_privilege auditor_db 1 ''users'' ''insert'' =
     Inl (HTTPException 403 ''Missing privilege insert on users'') \<and>
   assert_privilege auditor_db 1 ''user'' ''read'' =
     Inl (HTTPException 403 ''Missing privilege read on user'')"
  using assert_privilege_decision [of auditor_db 1 "''users''" "''read''"]
    assert_privilege_decision [of auditor_db 1 "''users''" "''insert''"]
    assert_privilege_decision [of auditor_db 1 "''user''" "''read''"]
  by (simp add: holds_superuser_role_def has_matching_privilege_def auditor_db_def)

section \<open>Attaching and detaching a privilege\<close>

lemma count_list_distinct: "distinct xs \<Longrightarrow> a \<in> set xs \<Longrightarrow> count_list xs a = 1"
  by (induction xs) (auto simp: count_list_0_iff)

lemma link_filter_eq:
  "[l \<leftarrow> xs. fst l = a \<and> snd l = b] \<noteq> [] \<longleftrightarrow> (a, b) \<in> set xs"
  by (induction xs) auto

lemma link_filter_neq:
  "[l \<leftarrow> xs. \<not> (fst l = a \<and> snd l = b)] = [l \<leftarrow> xs. l \<noteq> (a, b)]"
  by (induction xs) auto

lemma link_filter_absent:
  "(a, b) \<notin> set xs \<Longrightarrow> [l \<leftarrow> xs. \<not> (fst l = a \<and> snd l = b)] = xs"
  by (induction xs) auto

text \<open>
  C7. For a stored role and a stored privilege (nonzero ids) and a \<open>role_privileges\<close>
  table without duplicate rows: after one attach, and after a second attach of the same
  pair, the table holds the link exactly once, and the second attach changes nothing;
  detach removes the rows of that link and nothing else, leaving every role, privilege,
  user and user-role row in place; detaching a link that is absent changes nothing.
\<close>

theorem attach_detach_links:
  assumes "r_id role \<noteq> 0" and "p_id privilege \<noteq> 0" and "distinct (role_privileges d)"
  shows "count_list (role_privileges (attach_privilege d role privilege))
           (r_id role, p_id privilege) = 1 \<and>
         attach_privilege (attach_privilege d role privilege) role privilege =
           attach_privilege d role privilege \<and>
         count_list
           (role_privileges (attach_privilege (attach_privilege d role privilege) role privilege))
           (r_id role, p_id privilege) = 1 \<and>
         roles (detach_privilege d role privilege) = roles d \<and>
         privileges (detach_privilege d role privilege) = privileges d \<and>
         users (detach_privilege d role privilege) = users d \<and>
         user_roles (detach_privilege d role privilege) = user_roles d \<and>
         role_privileges (detach_privilege d role privilege) =
           [l \<leftarrow> role_privileges d. l \<noteq> (r_id role, p_id privilege)] \<and>
         ((r_id role, p_id privilege) \<notin> set (role_privileges d) \<longrightarrow>
            detach_privilege d role privilege = d)"
proof -
  let ?link = "(r_id role, p_id privilege)"
  let ?d1 = "attach_privilege d role privilege"
  have one: "count_list (role_privileges ?d1) ?link = 1"
  proof (cases "?link \<in> set (role_privileges d)")
    case True
    then have "?d1 = d"
      using assms by (simp add: attach_privilege_def link_filter_eq)
    then show ?thesis
      using True assms(3) by (simp add: count_list_distinct)
  next
    case False
    then have "role_privileges ?d1 = role_privileges d @ [?link]"
      using assms by (simp add: attach_privilege_def link_filter_eq)
    then show ?thesis
      using False by (simp add: count_list_0_iff)
  qed
  have "?link \<in> set (role_privileges ?d1)"
    using one count_list_0_iff [of "role_privileges ?d1" ?link] by auto
  then have idem: "attach_privilege ?d1 role privilege = ?d1"
    using assms by (simp add: attach_privilege_def [of ?d1] link_filter_eq)
  have noop: "?link \<notin> set (role_privileges d) \<longrightarrow> detach_privilege d role privilege = d"
  proof
    assume absent: "?link \<notin> set (role_privileges d)"
    show "detach_privilege d role privilege = d"
      unfolding detach_privilege_def link_filter_absent [OF absent]
      using assms by simp
  qed
  have links: "role_privileges (detach_privilege d role privilege) =
      [l \<leftarrow> role_privileges d. l \<noteq> ?link]"
    unfolding detach_privilege_def link_filter_neq using assms by simp
  have frame: "roles (detach_privilege d role privilege) = roles d \<and>
      privileges (detach_privilege d role privilege) = privileges d \<and>
      users (detach_privilege d role privilege) = users d \<and>
      user_roles (detach_privilege d role privilege) = user_roles d"
    by (simp add: detach_privilege_def)
  from one idem noop links frame show ?thesis
    by (simp only: simp_thms)
qed

theorem attach_detach_links_witness:
  "role_privileges
     (attach_privilege (attach_privilege empty_db audit_role read_privilege)
        audit_role read_privilege) = [(1, 1)] \<and>
   count_list (role_privileges (attach_privilege auditor_db audit_role read_privilege))
     (1, 1) = 1 \<and>
   detach_privilege empty_db audit_role read_privilege = empty_db \<and>
   role_privileges (detach_privilege auditor_db audit_role read_privilege) = [] \<and>
   roles (detach_privilege auditor_db audit_role read_privilege) = roles auditor_db \<and>
   privileges (detach_privilege auditor_db audit_role read_privilege) = privileges auditor_db"
  using attach_detach_links [of audit_role read_privilege empty_db]
    attach_detach_links [of audit_role read_privilege auditor_db]
  by (simp add: audit_role_def read_privilege_def empty_db_def auditor_db_def attach_privilege_def)


section \<open>get_or_create and soft-deleted privileges\<close>

text \<open>
  Whenever a call of \<open>get_or_create\<close> returns, it returns an active privilege with the
  requested resource and action, stored in the resulting database, and a second call with
  the same resource and action returns the same privilege and leaves the database as it is.
\<close>

lemma get_or_create_idempotent:
  assumes "get_or_create d resource action description = Inr (privilege, d1)"
  shows "p_resource privilege = resource \<and> p_action privilege = action \<and>
         p_deleted_at privilege = None \<and> privilege \<in> set (privileges d1) \<and>
         get_or_create d1 resource action description' = Inr (privilege, d1)"
proof -
  let ?P = "\<lambda>p. p_resource p = resource \<and> p_action p = action \<and> p_deleted_at p = None"
  show ?thesis
  proof (cases "filter ?P (privileges d)" rule: scalar_one_or_none.cases)
    case 1
    then have new: "privilege = \<lparr>p_id = next_id (map p_id (privileges d)), p_resource = resource,
                p_action = action, p_description = description, p_deleted_at = None\<rparr>"
       and d1: "d1 = d\<lparr>privileges := privileges d @ [privilege]\<rparr>"
      using assms by (auto simp: get_or_create_def Let_def split: if_splits)
    have "filter ?P (privileges d1) = [privilege]"
      using 1 new d1 by simp
    then have "get_or_create d1 resource action description' = Inr (privilege, d1)"
      by (simp add: get_or_create_def)
    moreover have "privilege \<in> set (privileges d1)"
      using d1 by simp
    ultimately show ?thesis
      using new by simp
  next
    case (2 x)
    then have same: "privilege = x" "d1 = d"
      using assms by (auto simp: get_or_create_def)
    have "x \<in> set (filter ?P (privileges d))"
      using 2 by simp
    then have props: "?P x \<and> x \<in> set (privileges d)"
      by simp
    have "get_or_create d resource action description' = Inr (x, d)"
      using 2 by (simp add: get_or_create_def)
    then show ?thesis
      using same props by simp
  next
    case (3 x y zs)
    then show ?thesis
      using assms by (simp add: get_or_create_def)
  qed
qed

text \<open>
  C6. At the failing input: the privilege (users, read) is created by \<open>get_or_create\<close>
  on the empty database and then soft-deleted; in the state so reached,
  \<open>get_or_create\<close> with the same resource and action finds no active row, inserts, and
  the insert is refused by the unique constraint: the call raises \<open>IntegrityError\<close>
  where the claim has it return an active privilege. \<open>create_privilege\<close>, which would
  restore a soft-deleted row if it got one, gets the error instead.
\<close>

theorem get_or_create_after_soft_delete:
  "get_or_create empty_db ''users'' ''read'' None =
     Inr (read_privilege, empty_db\<lparr>privileges := [read_privilege]\<rparr>) \<and>
   PrivilegeRepository_soft_delete (empty_db\<lparr>privileges := [read_privilege]\<rparr>)
     read_privilege 5 = soft_deleted_privilege_db \<and>
   get_or_create soft_deleted_privilege_db ''users'' ''read'' None = Inl IntegrityError \<and>
   create_privilege soft_deleted_privilege_db ''users'' ''read'' None = Inl IntegrityError"
  by (simp add: get_or_create_def create_privilege_def soft_deleted_privilege_db_def
      empty_db_def read_privilege_def next_id_def PrivilegeRepository_soft_delete_def
      put_privilege_def Let_def)

section \<open>Login, soft delete and blocking\<close>

lemma filter_unique_key:
  "distinct (map f xs) \<Longrightarrow> x \<in> set xs \<Longrightarrow> P x \<Longrightarrow> [y \<leftarrow> xs. f y = f x \<and> P y] = [x]"
proof (induction xs)
  case Nil
  then show ?case by simp
next
  case (Cons a xs)
  show ?case
  proof (cases "a = x")
    case True
    have "\<forall>y \<in> set xs. f y \<noteq> f x"
      using Cons.prems(1) True by (metis distinct.simps(2) image_eqI list.simps(9) set_map)
    then have "[y \<leftarrow> xs. f y = f x \<and> P y] = []"
      by (simp add: filter_empty_conv)
    then show ?thesis
      using True Cons.prems(3) by simp
  next
    case False
    then have "x \<in> set xs"
      using Cons.prems(2) by simp
    then have "f a \<noteq> f x"
      using Cons.prems(1) by (metis distinct.simps(2) image_eqI list.simps(9) set_map)
    then show ?thesis
      using Cons \<open>x \<in> set xs\<close> by simp
  qed
qed

lemma filter_unique_key_none:
  "distinct (map f xs) \<Longrightarrow> x \<in> set xs \<Longrightarrow> \<not> P x \<Longrightarrow> [y \<leftarrow> xs. f y = f x \<and> P y] = []"
  by (auto simp: filter_empty_conv dest: inj_on_eq_iff [OF iffD1 [OF distinct_map, THEN conjunct2]])

lemma get_by_email_active:
  assumes "distinct (map u_email (users d))" and "user \<in> set (users d)"
  shows "get_by_email d (u_email user) =
           Inr (if u_deleted_at user = None then Some user else None)"
proof (cases "u_deleted_at user = None")
  case True
  then show ?thesis
    using filter_unique_key [OF assms, of "\<lambda>u. u_deleted_at u = None"]
    by (simp add: get_by_email_def)
next
  case False
  then show ?thesis
    using filter_unique_key_none [OF assms, of "\<lambda>u. u_deleted_at u = None"]
    by (simp add: get_by_email_def)
qed

lemma put_user_emails:
  assumes "distinct (map u_id (users d))" and "user \<in> set (users d)"
    and "u_id user' = u_id user" and "u_email user' = u_email user"
  shows "map u_email (users (put_user d user')) = map u_email (users d)"
proof -
  have "\<forall>u \<in> set (users d). u_id u = u_id user \<longrightarrow> u = user"
    using assms(1,2) by (meson distinct_map inj_on_eq_iff)
  then show ?thesis
    using assms(3,4) by (auto simp: put_user_def)
qed

lemma put_user_mem:
  "user \<in> set (users d) \<Longrightarrow> u_id user' = u_id user \<Longrightarrow> user' \<in> set (users (put_user d user'))"
  by (force simp: put_user_def)

lemma authenticate_after_put:
  assumes "distinct (map u_id (users d))" and "distinct (map u_email (users d))"
    and "user \<in> set (users d)"
    and "u_id user' = u_id user" and "u_email user' = u_email user"
  shows "authenticate verify_password create_access_token (put_user d user') (u_email user)
           password =
         (if u_deleted_at user' \<noteq> None
            \<or> \<not> verify_password password (u_hashed_password user')
          then Inl (HTTPException 401 ''Invalid credentials'')
          else if u_is_blocked user' then Inl (HTTPException 403 ''User is blocked'')
          else Inr (create_access_token (str_int (u_id user)) (u_email user)))"
proof -
  have "distinct (map u_email (users (put_user d user')))"
    using put_user_emails [OF assms(1,3,4,5)] assms(2) by simp
  then have "get_by_email (put_user d user') (u_email user') =
      Inr (if u_deleted_at user' = None then Some user' else None)"
    using put_user_mem [OF assms(3,4)] by (rule get_by_email_active)
  then show ?thesis
    using assms(4,5) by (simp add: authenticate_def)
qed


lemma put_user_ids:
  "u_id user' = u_id user \<Longrightarrow> map u_id (users (put_user d user')) = map u_id (users d)"
  by (auto simp: put_user_def)

lemma authenticate_stored:
  assumes "distinct (map u_email (users d))" and "user \<in> set (users d)"
  shows "authenticate verify_password create_access_token d (u_email user) password =
         (if u_deleted_at user \<noteq> None
            \<or> \<not> verify_password password (u_hashed_password user)
          then Inl (HTTPException 401 ''Invalid credentials'')
          else if u_is_blocked user then Inl (HTTPException 403 ''User is blocked'')
          else Inr (create_access_token (str_int (u_id user)) (u_email user)))"
  using get_by_email_active [OF assms] by (simp add: authenticate_def)

lemma authenticate_unknown_email:
  assumes "email \<notin> set (map u_email (users d))"
  shows "authenticate verify_password create_access_token d email password =
         Inl (HTTPException 401 ''Invalid credentials'')"
proof -
  have "[u \<leftarrow> users d. u_email u = email \<and> u_deleted_at u = None] = []"
    using assms by (auto simp: filter_empty_conv)
  then show ?thesis
    by (simp add: authenticate_def get_by_email_def)
qed

text \<open>
  C5. For a stored user with unique id and email and a password that verifies:
  \<open>authenticate\<close> raises 401 when the user is soft-deleted, else 403 when the user is
  blocked, else returns the token. For a user who can log in: after \<open>soft_delete\<close> the
  login raises 401 and after \<open>restore\<close> it returns the token again; after blocking it
  raises 403 and after unblocking it returns the token again. An email that no user has,
  and a password that does not verify, raise 401.
\<close>

theorem login_after_soft_delete_and_block:
  assumes pk: "distinct (map u_id (users d))"
    and uq: "distinct (map u_email (users d))"
    and mem: "user \<in> set (users d)"
    and pw: "verify_password password (u_hashed_password user)"
  shows
    "authenticate verify_password create_access_token d (u_email user) password =
       (if u_deleted_at user \<noteq> None then Inl (HTTPException 401 ''Invalid credentials'')
        else if u_is_blocked user then Inl (HTTPException 403 ''User is blocked'')
        else Inr (create_access_token (str_int (u_id user)) (u_email user))) \<and>
     (u_deleted_at user = None \<and> \<not> u_is_blocked user \<longrightarrow>
        (case UserRepository_soft_delete d user now of
           (deleted, d1) \<Rightarrow>
             authenticate verify_password create_access_token d1 (u_email user) password =
               Inl (HTTPException 401 ''Invalid credentials'') \<and>
             authenticate verify_password create_access_token
               (snd (UserRepository_restore d1 deleted)) (u_email user) password =
               Inr (create_access_token (str_int (u_id user)) (u_email user))) \<and>
        (case set_block_status d user True of
           (blocked, d2) \<Rightarrow>
             authenticate verify_password create_access_token d2 (u_email user) password =
               Inl (HTTPException 403 ''User is blocked'') \<and>
             authenticate verify_password create_access_token
               (snd (set_block_status d2 blocked False)) (u_email user) password =
               Inr (create_access_token (str_int (u_id user)) (u_email user)))) \<and>
     (unknown \<notin> set (map u_email (users d)) \<longrightarrow>
        authenticate verify_password create_access_token d unknown any_password =
          Inl (HTTPException 401 ''Invalid credentials'')) \<and>
     (\<not> verify_password wrong (u_hashed_password user) \<longrightarrow>
        authenticate verify_password create_access_token d (u_email user) wrong =
          Inl (HTTPException 401 ''Invalid credentials''))"
proof -
  let ?login = "\<lambda>d'. authenticate verify_password create_access_token d' (u_email user) password"
  let ?token = "create_access_token (str_int (u_id user)) (u_email user)"
  have stored: "?login d =
       (if u_deleted_at user \<noteq> None then Inl (HTTPException 401 ''Invalid credentials'')
        else if u_is_blocked user then Inl (HTTPException 403 ''User is blocked'')
        else Inr ?token)"
    using authenticate_stored [OF uq mem, of verify_password create_access_token password] pw
    by simp
  have wrong: "\<not> verify_password wrong (u_hashed_password user) \<longrightarrow>
      authenticate verify_password create_access_token d (u_email user) wrong =
        Inl (HTTPException 401 ''Invalid credentials'')"
    using authenticate_stored [OF uq mem, of verify_password create_access_token wrong]
    by simp
  have unknown: "unknown \<notin> set (map u_email (users d)) \<longrightarrow>
      authenticate verify_password create_access_token d unknown any_password =
        Inl (HTTPException 401 ''Invalid credentials'')"
    using authenticate_unknown_email by blast
  have trips: "u_deleted_at user = None \<and> \<not> u_is_blocked user \<longrightarrow>
        (case UserRepository_soft_delete d user now of
           (deleted, d1) \<Rightarrow>
             ?login d1 = Inl (HTTPException 401 ''Invalid credentials'') \<and>
             ?login (snd (UserRepository_restore d1 deleted)) = Inr ?token) \<and>
        (case set_block_status d user True of
           (blocked, d2) \<Rightarrow>
             ?login d2 = Inl (HTTPException 403 ''User is blocked'') \<and>
             ?login (snd (set_block_status d2 blocked False)) = Inr ?token)"
  proof
    assume base: "u_deleted_at user = None \<and> \<not> u_is_blocked user"
    let ?deleted = "user\<lparr>u_deleted_at := Some now, u_is_active := False\<rparr>"
    let ?d1 = "put_user d ?deleted"
    let ?blocked = "user\<lparr>u_is_blocked := True\<rparr>"
    let ?d2 = "put_user d ?blocked"
    have a1: "?login ?d1 = Inl (HTTPException 401 ''Invalid credentials'')"
      using authenticate_after_put [OF pk uq mem, of ?deleted verify_password
          create_access_token password]
      by simp
    have pk1: "distinct (map u_id (users ?d1))"
      using put_user_ids [of ?deleted user d] pk by simp
    have uq1: "distinct (map u_email (users ?d1))"
      using put_user_emails [OF pk mem, of ?deleted] uq by simp
    have mem1: "?deleted \<in> set (users ?d1)"
      using put_user_mem [OF mem, of ?deleted] by simp
    have a2: "?login (put_user ?d1 (?deleted\<lparr>u_deleted_at := None, u_is_active := True\<rparr>)) =
        Inr ?token"
      using authenticate_after_put [OF pk1 uq1 mem1,
          of "?deleted\<lparr>u_deleted_at := None, u_is_active := True\<rparr>" verify_password
          create_access_token password] pw base
      by simp
    have b1: "?login ?d2 = Inl (HTTPException 403 ''User is blocked'')"
      using authenticate_after_put [OF pk uq mem, of ?blocked verify_password
          create_access_token password] pw base
      by simp
    have pk2: "distinct (map u_id (users ?d2))"
      using put_user_ids [of ?blocked user d] pk by simp
    have uq2: "distinct (map u_email (users ?d2))"
      using put_user_emails [OF pk mem, of ?blocked] uq by simp
    have mem2: "?blocked \<in> set (users ?d2)"
      using put_user_mem [OF mem, of ?blocked] by simp
    have b2: "?login (put_user ?d2 (?blocked\<lparr>u_is_blocked := False\<rparr>)) = Inr ?token"
      using authenticate_after_put [OF pk2 uq2 mem2, of "?blocked\<lparr>u_is_blocked := False\<rparr>"
          verify_password create_access_token password] pw base
      by simp
    show "(case UserRepository_soft_delete d user now of
           (deleted, d1) \<Rightarrow>
             ?login d1 = Inl (HTTPException 401 ''Invalid credentials'') \<and>
             ?login (snd (UserRepository_restore d1 deleted)) = Inr ?token) \<and>
        (case set_block_status d user True of
           (blocked, d2) \<Rightarrow>
             ?login d2 = Inl (HTTPException 403 ''User is blocked'') \<and>
             ?login (snd (set_block_status d2 blocked False)) = Inr ?token)"
      using a1 a2 b1 b2
      by (simp add: UserRepository_soft_delete_def UserRepository_restore_def
          set_block_status_def Let_def)
  qed
  from stored trips unknown wrong show ?thesis
    by (simp only: simp_thms)
qed

theorem login_after_soft_delete_and_block_witness:
  "authenticate (=) (\<lambda>sub email. sub @ ''/'' @ email) alice_db ''alice@example.com'' ''secret'' =
     Inr ''1/alice@example.com'' \<and>
   authenticate (=) (\<lambda>sub email. sub @ ''/'' @ email)
     (snd (UserRepository_soft_delete alice_db alice 7)) ''alice@example.com'' ''secret'' =
     Inl (HTTPException 401 ''Invalid credentials'') \<and>
   authenticate (=) (\<lambda>sub email. sub @ ''/'' @ email)
     (snd (UserRepository_restore (snd (UserRepository_soft_delete alice_db alice 7))
        (fst (UserRepository_soft_delete alice_db alice 7))))
     ''alice@example.com'' ''secret'' = Inr ''1/alice@example.com'' \<and>
   authenticate (=) (\<lambda>sub email. sub @ ''/'' @ email)
     (snd (set_block_status alice_db alice True)) ''alice@example.com'' ''secret'' =
     Inl (HTTPException 403 ''User is blocked'') \<and>
   authenticate (=) (\<lambda>sub email. sub @ ''/'' @ email)
     (snd (set_block_status (snd (set_block_status alice_db alice True))
        (fst (set_block_status alice_db alice True)) False))
     ''alice@example.com'' ''secret'' = Inr ''1/alice@example.com'' \<and>
   authenticate (=) (\<lambda>sub email. sub @ ''/'' @ email) alice_db ''bob@example.com'' ''secret'' =
     Inl (HTTPException 401 ''Invalid credentials'') \<and>
   authenticate (=) (\<lambda>sub email. sub @ ''/'' @ email) alice_db ''alice@example.com'' ''guess'' =
     Inl (HTTPException 401 ''Invalid credentials'')"
proof -
  have pk: "distinct (map u_id (users alice_db))"
    and uq: "distinct (map u_email (users alice_db))"
    and mem: "alice \<in> set (users alice_db)"
    and pw: "''secret'' = u_hashed_password alice"
    by (simp_all add: alice_db_def alice_def)
  have fields: "u_email alice = ''alice@example.com''" "u_deleted_at alice = None"
    "u_is_blocked alice = False" "str_int (u_id alice) = ''1''"
    "u_hashed_password alice = ''secret''"
    by (simp_all add: alice_def alice_db_def str_int_def str_nat.simps)
  have nobody: "''bob@example.com'' \<notin> u_email ` set (users alice_db)"
    by (simp add: alice_def alice_db_def)
  show ?thesis
    using login_after_soft_delete_and_block
      [of alice_db alice "(=)" "''secret''" "\<lambda>sub email. sub @ ''/'' @ email" 7
        "''bob@example.com''" "''secret''" "''guess''", OF pk uq mem pw]
    unfolding fields
    by (simp add: split_beta nobody)
qed

section \<open>The single superuser role\<close>

lemma at_most_one_key:
  "distinct (map f xs) \<Longrightarrow>
   (length (filter P xs) \<le> 1) = (\<exists>k. \<forall>y \<in> set xs. P y \<longrightarrow> f y = k)"
proof (induction xs)
  case Nil
  then show ?case by simp
next
  case (Cons a xs)
  have fresh: "\<forall>y \<in> set xs. f y \<noteq> f a"
    using Cons.prems by (metis distinct.simps(2) image_eqI list.simps(9) set_map)
  have IH: "(length (filter P xs) \<le> 1) = (\<exists>k. \<forall>y \<in> set xs. P y \<longrightarrow> f y = k)"
    using Cons by simp
  show ?case
  proof (cases "P a")
    case True
    have "(length (filter P (a # xs)) \<le> 1) = (filter P xs = [])"
      using True by auto
    also have "\<dots> = (\<forall>y \<in> set xs. \<not> P y)"
      by (simp add: filter_empty_conv)
    also have "\<dots> = (\<exists>k. \<forall>y \<in> set (a # xs). P y \<longrightarrow> f y = k)"
      using True fresh by auto
    finally show ?thesis .
  next
    case False
    then show ?thesis
      using IH by simp
  qed
qed

lemma fold_max_ge: "(a::int) \<le> fold max ids a"
  by (induction ids arbitrary: a) (auto intro: order_trans [OF max.cobounded2])

lemma fold_max_mem: "x \<in> set ids \<Longrightarrow> (x::int) \<le> fold max ids a"
proof (induction ids arbitrary: a)
  case Nil
  then show ?case by simp
next
  case (Cons i ids)
  show ?case
  proof (cases "x = i")
    case True
    have "max i a \<le> fold max ids (max i a)"
      by (rule fold_max_ge)
    then show ?thesis
      using True by simp
  next
    case False
    then show ?thesis
      using Cons by simp
  qed
qed

lemma next_id_fresh: "next_id ids \<notin> set ids"
  using fold_max_mem [of "next_id ids" ids 0] by (auto simp: next_id_def)


text \<open>The superuser check passes exactly when the select finds no row.\<close>

lemma assert_single_super_role_cases:
  "assert_single_super_role d exclude_role_id =
     (case [r \<leftarrow> roles d. r_is_superuser r \<and>
              (case exclude_role_id of None \<Rightarrow> True | Some x \<Rightarrow> r_id r \<noteq> x)] of
        [] \<Rightarrow> Inr ()
      | [r] \<Rightarrow> Inl (ValueError ''A superuser role already exists'')
      | r # r' # rs \<Rightarrow> Inl MultipleResultsFound)"
  unfolding assert_single_super_role_def
  by (cases "[r \<leftarrow> roles d. r_is_superuser r \<and>
              (case exclude_role_id of None \<Rightarrow> True | Some x \<Rightarrow> r_id r \<noteq> x)]"
      rule: scalar_one_or_none.cases) simp_all

lemma assert_single_super_role_ok:
  "assert_single_super_role d exclude_role_id = Inr u \<longleftrightarrow>
     (\<forall>r \<in> set (roles d). r_is_superuser r \<longrightarrow> exclude_role_id = Some (r_id r))"
proof -
  let ?found = "[r \<leftarrow> roles d. r_is_superuser r \<and>
              (case exclude_role_id of None \<Rightarrow> True | Some x \<Rightarrow> r_id r \<noteq> x)]"
  have "assert_single_super_role d exclude_role_id = Inr u \<longleftrightarrow> ?found = []"
    unfolding assert_single_super_role_cases by (simp split: list.splits)
  also have "\<dots> \<longleftrightarrow> (\<forall>r \<in> set (roles d). r_is_superuser r \<longrightarrow> exclude_role_id = Some (r_id r))"
    by (cases exclude_role_id) (auto simp: filter_empty_conv)
  finally show ?thesis .
qed

lemma get_or_create_roles:
  "get_or_create d resource action description = Inr (privilege, d') \<Longrightarrow> roles d' = roles d"
  by (auto simp: get_or_create_def Let_def split: sum.splits option.splits if_splits)

lemma attach_privilege_roles: "roles (attach_privilege d role privilege) = roles d"
  by (simp add: attach_privilege_def)

lemma sync_privileges_roles:
  "sync_privileges d role specs = Inr d' \<Longrightarrow> roles d' = roles d"
proof (induction d role specs rule: sync_privileges.induct)
  case (1 d role)
  then show ?case by simp
next
  case (2 d role resource action privilege_specs)
  then show ?case
    by (auto simp: get_or_create_roles attach_privilege_roles split: sum.splits)
qed

lemma create_roles:
  assumes "create d name privilege_ids is_superuser = Inr (role, d')"
  shows "roles d' = roles d @ [role] \<and> r_id role = next_id (map r_id (roles d)) \<and>
         r_is_superuser role = is_superuser \<and> r_deleted_at role = None \<and> r_name role = name \<and>
         (is_superuser \<longrightarrow> (\<forall>r \<in> set (roles d). \<not> r_is_superuser r))"
proof -
  have chk: "is_superuser \<longrightarrow> assert_single_super_role d None = Inr ()"
    using assms by (auto simp: create_def split: sum.splits if_splits)
  have "roles d' = roles d @ [role] \<and> r_id role = next_id (map r_id (roles d)) \<and>
         r_is_superuser role = is_superuser \<and> r_deleted_at role = None \<and> r_name role = name"
    using assms by (auto simp: create_def Let_def split: sum.splits if_splits)
  then show ?thesis
    using chk by (auto simp: assert_single_super_role_ok)
qed

lemma put_role_ids_any: "map r_id (roles (put_role d role')) = map r_id (roles d)"
  by (auto simp: put_role_def)

lemma put_role_set:
  "set (roles (put_role d role')) \<subseteq> insert role' {r \<in> set (roles d). r_id r \<noteq> r_id role'}"
  by (auto simp: put_role_def)


lemma role_inv_key:
  "role_inv d \<longleftrightarrow>
     distinct (map r_id (roles d)) \<and>
     (\<exists>k. \<forall>r \<in> set (roles d). r_is_superuser r \<longrightarrow> r_id r = k)"
  unfolding role_inv_def at_most_one_superuser_def
  using at_most_one_key [of r_id "roles d" r_is_superuser] by blast

lemma role_inv_cong: "roles d' = roles d \<Longrightarrow> role_inv d' = role_inv d"
  by (simp add: role_inv_def at_most_one_superuser_def)

lemma role_inv_create:
  assumes "role_inv d" and "create d name privilege_ids is_superuser = Inr (role, d')"
  shows "role_inv d'"
proof -
  note c = create_roles [OF assms(2)]
  have ids: "distinct (map r_id (roles d'))"
    using c assms(1) next_id_fresh [of "map r_id (roles d)"] by (simp add: role_inv_key)
  obtain k where k: "\<forall>r \<in> set (roles d). r_is_superuser r \<longrightarrow> r_id r = k"
    using assms(1) by (auto simp: role_inv_key)
  have "\<exists>k'. \<forall>r \<in> set (roles d'). r_is_superuser r \<longrightarrow> r_id r = k'"
  proof (cases is_superuser)
    case True
    then have "\<forall>r \<in> set (roles d'). r_is_superuser r \<longrightarrow> r_id r = r_id role"
      using c by auto
    then show ?thesis ..
  next
    case False
    then have "\<forall>r \<in> set (roles d'). r_is_superuser r \<longrightarrow> r_id r = k"
      using c k by auto
    then show ?thesis ..
  qed
  then show ?thesis
    using ids by (simp add: role_inv_key)
qed

lemma role_inv_put_role:
  assumes "role_inv d" and "role \<in> set (roles d)" and "r_id role' = r_id role"
    and "r_is_superuser role' \<longrightarrow>
           r_is_superuser role \<or> (\<forall>r \<in> set (roles d). r_is_superuser r \<longrightarrow> r_id r = r_id role)"
  shows "role_inv (put_role d role')"
proof -
  have ids: "distinct (map r_id (roles (put_role d role')))"
    using assms(1) by (simp add: put_role_ids_any role_inv_key)
  obtain k where k: "\<forall>r \<in> set (roles d). r_is_superuser r \<longrightarrow> r_id r = k"
    using assms(1) by (auto simp: role_inv_key)
  have sub: "\<forall>r \<in> set (roles (put_role d role')). r = role' \<or> (r \<in> set (roles d) \<and> r_id r \<noteq> r_id role')"
    using put_role_set [of d role'] by auto
  have "\<exists>k'. \<forall>r \<in> set (roles (put_role d role')). r_is_superuser r \<longrightarrow> r_id r = k'"
  proof (cases "r_is_superuser role'")
    case False
    then have "\<forall>r \<in> set (roles (put_role d role')). r_is_superuser r \<longrightarrow> r_id r = k"
      using sub k by auto
    then show ?thesis ..
  next
    case True
    show ?thesis
    proof (cases "r_is_superuser role")
      case True
      then have "r_id role = k"
        using k assms(2) by simp
      then have "\<forall>r \<in> set (roles (put_role d role')). r_is_superuser r \<longrightarrow> r_id r = k"
        using sub k assms(3) by auto
      then show ?thesis ..
    next
      case False
      then have "\<forall>r \<in> set (roles d). r_is_superuser r \<longrightarrow> r_id r = r_id role"
        using assms(4) \<open>r_is_superuser role'\<close> by simp
      then have "\<forall>r \<in> set (roles (put_role d role')). r_is_superuser r \<longrightarrow> r_id r = r_id role"
        using sub assms(3) by auto
      then show ?thesis ..
    qed
  qed
  then show ?thesis
    using ids by (simp add: role_inv_key)
qed

lemma role_inv_hard_delete:
  assumes "role_inv d"
  shows "role_inv (RoleRepository_hard_delete d role)"
proof -
  have r: "roles (RoleRepository_hard_delete d role) = [r \<leftarrow> roles d. r_id r \<noteq> r_id role]"
    by (simp add: RoleRepository_hard_delete_def)
  obtain k where k: "\<forall>r \<in> set (roles d). r_is_superuser r \<longrightarrow> r_id r = k"
    using assms by (auto simp: role_inv_key)
  have "distinct (map r_id (roles (RoleRepository_hard_delete d role)))"
    using assms unfolding r by (simp add: role_inv_key distinct_map_filter)
  moreover have "\<forall>r \<in> set (roles (RoleRepository_hard_delete d role)). r_is_superuser r \<longrightarrow> r_id r = k"
    using k unfolding r by simp
  ultimately show ?thesis
    unfolding role_inv_key by blast
qed

lemma require_role_mem:
  "require_role d role_id include_deleted = Inr role \<Longrightarrow> role \<in> set (roles d)"
proof -
  assume a: "require_role d role_id include_deleted = Inr role"
  then have "RoleRepository_get_by_id d role_id include_deleted = Inr (Some role)"
    by (auto simp: require_role_def split: sum.splits option.splits if_splits)
  then have "[r \<leftarrow> roles d. r_id r = role_id \<and> (include_deleted \<or> r_deleted_at r = None)] = [role]"
    by (simp add: RoleRepository_get_by_id_def scalar_one_or_none_Some)
  then have "role \<in> set [r \<leftarrow> roles d. r_id r = role_id \<and> (include_deleted \<or> r_deleted_at r = None)]"
    by simp
  then show ?thesis
    by simp
qed


lemma put_role_keep:
  "r \<in> set (roles d) \<Longrightarrow> r_id r \<noteq> r_id role' \<Longrightarrow> r \<in> set (roles (put_role d role'))"
  by (force simp: put_role_def)

lemma assert_after_put_role:
  assumes "assert_single_super_role (put_role d role1) (Some (r_id role1)) = Inr u"
  shows "\<forall>r \<in> set (roles d). r_is_superuser r \<longrightarrow> r_id r = r_id role1"
proof
  fix r
  assume r: "r \<in> set (roles d)"
  show "r_is_superuser r \<longrightarrow> r_id r = r_id role1"
  proof (cases "r_id r = r_id role1")
    case True
    then show ?thesis by simp
  next
    case False
    then have "r \<in> set (roles (put_role d role1))"
      using r by (rule put_role_keep [rotated])
    then show ?thesis
      using assms by (auto simp: assert_single_super_role_ok)
  qed
qed

lemma update_role_effect:
  assumes "RoleRepository_update_role d role name is_superuser = Inr (role', d')"
  shows "d' = put_role d role' \<and> r_id role' = r_id role \<and>
         r_deleted_at role' = r_deleted_at role \<and>
         (r_is_superuser role' \<longrightarrow>
            r_is_superuser role \<or>
            (\<forall>r \<in> set (roles d). r_is_superuser r \<longrightarrow> r_id r = r_id role))"
proof -
  define role1 where "role1 =
    (case name of None \<Rightarrow> role | Some n \<Rightarrow> if n \<noteq> [] then role\<lparr>r_name := n\<rparr> else role)"
  have r1: "r_id role1 = r_id role" "r_is_superuser role1 = r_is_superuser role"
    "r_deleted_at role1 = r_deleted_at role"
    by (auto simp: role1_def split: option.splits)
  have chk: "\<And>u. assert_single_super_role (put_role d role1) (Some (r_id role1)) = Inr u \<Longrightarrow>
      (\<forall>r \<in> set (roles d). r_is_superuser r \<longrightarrow> r_id r = r_id role)"
    using assert_after_put_role [of d role1] r1 by simp
  show ?thesis
  proof (cases is_superuser)
    case None
    then have "role' = role1 \<and> d' = put_role d role1"
      using assms
      by (auto simp: RoleRepository_update_role_def Let_def role1_def [symmetric]
          split: if_splits)
    then show ?thesis
      using r1 by simp
  next
    case (Some flag)
    show ?thesis
    proof (cases "flag \<noteq> r_is_superuser role1")
      case False
      then have "role' = role1 \<and> d' = put_role d role1"
        using assms Some
        by (auto simp: RoleRepository_update_role_def Let_def role1_def [symmetric]
            split: if_splits)
      then show ?thesis
        using r1 by simp
    next
      case True
      then have eff: "role' = role1\<lparr>r_is_superuser := flag\<rparr> \<and> d' = put_role d role' \<and>
          (flag \<longrightarrow> (\<exists>u. assert_single_super_role (put_role d role1) (Some (r_id role1)) = Inr u))"
        using assms Some
        by (auto simp: RoleRepository_update_role_def Let_def role1_def [symmetric]
            split: if_splits sum.splits)
      then show ?thesis
        using r1 chk by auto
    qed
  qed
qed

lemma role_inv_update_role:
  assumes "role_inv d" and "role \<in> set (roles d)"
    and "RoleRepository_update_role d role name is_superuser = Inr (role', d')"
  shows "role_inv d'"
  using update_role_effect [OF assms(3)] role_inv_put_role [OF assms(1,2), of role']
  by auto

lemma service_create_roles:
  assumes "RoleService_create_role d name privs is_superuser = Inr (found, d2)"
  shows "\<exists>role d1. create d name None is_superuser = Inr (role, d1) \<and> roles d2 = roles d1"
proof -
  obtain role d1 where c: "create d name None is_superuser = Inr (role, d1)"
    using assms by (auto simp: RoleService_create_role_def split: sum.splits error.splits)
  have "roles d2 = roles d1"
    using assms c
    by (auto simp: RoleService_create_role_def sync_privileges_roles
        split: sum.splits option.splits if_splits)
  then show ?thesis
    using c by blast
qed

lemma service_update_roles:
  assumes "RoleService_update_role d role_id name privs is_superuser = Inr (found, d2)"
  shows "\<exists>role role' d1. require_role d role_id False = Inr role \<and>
           RoleRepository_update_role d role name is_superuser = Inr (role', d1) \<and>
           roles d2 = roles d1"
proof -
  obtain role where r: "require_role d role_id False = Inr role"
    using assms by (auto simp: RoleService_update_role_def split: sum.splits)
  obtain role' d1 where u: "RoleRepository_update_role d role name is_superuser = Inr (role', d1)"
    using assms r by (auto simp: RoleService_update_role_def split: sum.splits error.splits)
  have "roles d2 = roles d1"
    using assms r u
    by (auto simp: RoleService_update_role_def split: sum.splits option.splits if_splits
        dest!: sync_privileges_roles)
  then show ?thesis
    using r u by blast
qed

lemma role_inv_step: "role_inv d \<Longrightarrow> role_inv (role_step d op)"
proof (cases op)
  case (CreateRole name privs is_superuser)
  assume inv: "role_inv d"
  show ?thesis
  proof (cases "RoleService_create_role d name privs is_superuser")
    case (Inl e)
    then show ?thesis
      using inv CreateRole by simp
  next
    case (Inr res)
    obtain found d2 where res: "res = (found, d2)"
      by (cases res)
    obtain role d1 where "create d name None is_superuser = Inr (role, d1)" "roles d2 = roles d1"
      using service_create_roles Inr res by blast
    then have "role_inv d2"
      using role_inv_create [OF inv] role_inv_cong by blast
    then show ?thesis
      using CreateRole Inr res by simp
  qed
next
  case (UpdateRole role_id name privs is_superuser)
  assume inv: "role_inv d"
  show ?thesis
  proof (cases "RoleService_update_role d role_id name privs is_superuser")
    case (Inl e)
    then show ?thesis
      using inv UpdateRole by simp
  next
    case (Inr res)
    obtain found d2 where res: "res = (found, d2)"
      by (cases res)
    obtain role role' d1 where "require_role d role_id False = Inr role"
      "RoleRepository_update_role d role name is_superuser = Inr (role', d1)"
      "roles d2 = roles d1"
      using service_update_roles Inr res by blast
    then have "role_inv d2"
      using role_inv_update_role [OF inv] require_role_mem role_inv_cong by blast
    then show ?thesis
      using UpdateRole Inr res by simp
  qed
next
  case (SoftDeleteRole role_id now)
  assume inv: "role_inv d"
  show ?thesis
  proof (cases "require_role d role_id True")
    case (Inl e)
    then show ?thesis
      using inv SoftDeleteRole by (simp add: RoleService_delete_role_def)
  next
    case (Inr role)
    have "role_inv (put_role d (role\<lparr>r_deleted_at := Some now\<rparr>))"
      using role_inv_put_role [OF inv require_role_mem [OF Inr]] by simp
    then show ?thesis
      using SoftDeleteRole Inr
      by (simp add: RoleService_delete_role_def RoleRepository_soft_delete_def)
  qed
next
  case (HardDeleteRole role_id)
  assume inv: "role_inv d"
  then show ?thesis
    using HardDeleteRole role_inv_hard_delete
    by (auto simp: RoleService_delete_role_def split: sum.splits)
next
  case (RestoreRole role_id)
  assume inv: "role_inv d"
  show ?thesis
  proof (cases "require_role d role_id True")
    case (Inl e)
    then show ?thesis
      using inv RestoreRole by (simp add: RoleService_restore_role_def)
  next
    case (Inr role)
    have "role_inv (put_role d (role\<lparr>r_deleted_at := None\<rparr>))"
      using role_inv_put_role [OF inv require_role_mem [OF Inr]] by simp
    then show ?thesis
      using RestoreRole Inr inv
      by (simp add: RoleService_restore_role_def RoleRepository_restore_def Let_def)
  qed
qed

lemma role_inv_steps: "role_inv d \<Longrightarrow> role_inv (foldl role_step d ops)"
  by (induction ops arbitrary: d) (simp_all add: role_inv_step)

lemma active_superusers_le:
  assumes "at_most_one_superuser d"
  shows "at_most_one_active_superuser d"
proof -
  have "length [r \<leftarrow> rs. r_is_superuser r \<and> r_deleted_at r = None]
        \<le> length [r \<leftarrow> rs. r_is_superuser r]" for rs :: "RoleORM list"
    by (induction rs) auto
  from this [of "roles d"] show ?thesis
    using assms by (simp add: at_most_one_superuser_def at_most_one_active_superuser_def)
qed

text \<open>
  C2, as amended. From a state with unique role ids in which at most one role, soft-deleted
  or not, has the superuser flag, every sequence of role operations of the service
  (create, update, soft delete, hard delete, restore; an operation that raises leaves the
  state as it was) ends in such a state again; in particular at most one non-deleted role
  has the flag after each operation.
\<close>

theorem superuser_invariant_kept:
  assumes "distinct (map r_id (roles d))" and "at_most_one_superuser d"
  shows "distinct (map r_id (roles (foldl role_step d ops))) \<and>
         at_most_one_superuser (foldl role_step d ops) \<and>
         at_most_one_active_superuser (foldl role_step d ops)"
proof -
  have "role_inv d"
    using assms by (simp add: role_inv_def)
  then have "role_inv (foldl role_step d ops)"
    by (rule role_inv_steps)
  then show ?thesis
    using active_superusers_le by (simp add: role_inv_def)
qed

lemmas role_eval =
  empty_db_def next_id_def Let_def
  RoleService_create_role_def RoleService_update_role_def RoleService_delete_role_def
  RoleService_restore_role_def require_role_def RoleRepository_get_by_id_def create_def
  assert_single_super_role_def RoleRepository_update_role_def RoleRepository_soft_delete_def
  RoleRepository_hard_delete_def RoleRepository_restore_def put_role_def

text \<open>
  C2 as stated fails: with a soft-deleted superuser role beside an active one, at most one
  non-deleted role has the flag, and restoring the deleted role leaves two.
\<close>

theorem restore_breaks_active_invariant:
  "at_most_one_active_superuser two_superusers_db \<and>
   \<not> at_most_one_active_superuser (role_step two_superusers_db (RestoreRole 1))"
  by (simp add: two_superusers_db_def at_most_one_active_superuser_def role_eval)

theorem superuser_invariant_kept_witness:
  "at_most_one_superuser (foldl role_step empty_db role_history) \<and>
   at_most_one_active_superuser (foldl role_step empty_db role_history) \<and>
   roles (foldl role_step empty_db role_history) =
     [\<lparr>r_id = 1, r_name = ''admin'', r_is_superuser = False, r_deleted_at = None\<rparr>,
      \<lparr>r_id = 2, r_name = ''root'', r_is_superuser = True, r_deleted_at = None\<rparr>]"
proof -
  have pk: "distinct (map r_id (roles empty_db))" and one: "at_most_one_superuser empty_db"
    by (simp_all add: empty_db_def at_most_one_superuser_def)
  have final: "roles (foldl role_step empty_db role_history) =
     [\<lparr>r_id = 1, r_name = ''admin'', r_is_superuser = False, r_deleted_at = None\<rparr>,
      \<lparr>r_id = 2, r_name = ''root'', r_is_superuser = True, r_deleted_at = None\<rparr>]"
    by (simp add: role_history_def role_eval)
  show ?thesis
    using superuser_invariant_kept [OF pk one, of role_history] final by simp
qed

section \<open>The superuser conflict\<close>

lemma assert_single_super_role_result:
  "assert_single_super_role d x = Inr () \<or>
   assert_single_super_role d x = Inl (ValueError ''A superuser role already exists'') \<or>
   assert_single_super_role d x = Inl MultipleResultsFound"
  unfolding assert_single_super_role_cases by (simp split: list.splits)

lemma assert_conflict_iff:
  "(assert_single_super_role d x = Inl (ValueError ''A superuser role already exists'') \<or>
    assert_single_super_role d x = Inl MultipleResultsFound) \<longleftrightarrow>
   (\<exists>r \<in> set (roles d). r_is_superuser r \<and> x \<noteq> Some (r_id r))"
proof -
  have "(assert_single_super_role d x = Inr ()) \<longleftrightarrow>
      \<not> (\<exists>r \<in> set (roles d). r_is_superuser r \<and> x \<noteq> Some (r_id r))"
    by (auto simp: assert_single_super_role_ok)
  then show ?thesis
    using assert_single_super_role_result [of d x] by auto
qed

lemma assert_value_error_iff:
  assumes "at_most_one_superuser d"
  shows "assert_single_super_role d None = Inl (ValueError ''A superuser role already exists'')
         \<longleftrightarrow> (\<exists>r \<in> set (roles d). r_is_superuser r)"
proof -
  have "length [r \<leftarrow> roles d. r_is_superuser r] \<le> 1"
    using assms by (simp add: at_most_one_superuser_def)
  then have "assert_single_super_role d None \<noteq> Inl MultipleResultsFound"
    unfolding assert_single_super_role_cases
    by (cases "[r \<leftarrow> roles d. r_is_superuser r]" rule: scalar_one_or_none.cases) auto
  then show ?thesis
    using assert_conflict_iff [of d None] by auto
qed

lemma create_superuser_error:
  "create d name privilege_ids True = Inl (ValueError m) \<longleftrightarrow>
     assert_single_super_role d None = Inl (ValueError m)"
  "create d name privilege_ids True = Inl MultipleResultsFound \<longleftrightarrow>
     assert_single_super_role d None = Inl MultipleResultsFound"
  by (auto simp: create_def Let_def split: sum.splits if_splits)

lemma create_error:
  "create d name privilege_ids is_superuser = Inl e \<Longrightarrow>
   e = ValueError ''A superuser role already exists'' \<or> e = MultipleResultsFound \<or>
   e = IntegrityError"
  using assert_single_super_role_result [of d None]
  by (auto simp: create_def Let_def split: sum.splits if_splits)

lemma get_or_create_error:
  "get_or_create d resource action description = Inl e \<Longrightarrow>
   e = MultipleResultsFound \<or> e = IntegrityError"
  by (auto simp: get_or_create_def Let_def split: sum.splits option.splits if_splits
      dest: scalar_one_or_none_error)

lemma sync_privileges_error:
  "sync_privileges d role specs = Inl e \<Longrightarrow> e = MultipleResultsFound \<or> e = IntegrityError"
proof (induction d role specs rule: sync_privileges.induct)
  case (1 d role)
  then show ?case by simp
next
  case (2 d role resource action privilege_specs)
  then show ?case
    by (auto split: sum.splits dest: get_or_create_error)
qed

lemma service_create_bad_request:
  "RoleService_create_role d name privs is_superuser = Inl (HTTPException 400 m) \<longleftrightarrow>
     create d name None is_superuser = Inl (ValueError m)"
proof
  assume "create d name None is_superuser = Inl (ValueError m)"
  then show "RoleService_create_role d name privs is_superuser = Inl (HTTPException 400 m)"
    by (simp add: RoleService_create_role_def)
next
  assume a: "RoleService_create_role d name privs is_superuser = Inl (HTTPException 400 m)"
  show "create d name None is_superuser = Inl (ValueError m)"
  proof (cases "create d name None is_superuser")
    case (Inl e)
    then show ?thesis
      using a create_error [OF Inl] by (auto simp: RoleService_create_role_def)
  next
    case (Inr res)
    obtain role d1 where res: "res = (role, d1)"
      by (cases res)
    have False
      using a Inr res
      by (auto simp: RoleService_create_role_def RoleRepository_get_by_id_def
          split: sum.splits option.splits if_splits
          dest: sync_privileges_error scalar_one_or_none_error)
    then show ?thesis ..
  qed
qed

lemma put_role_others:
  "(\<exists>r \<in> set (roles (put_role d x)). P r \<and> r_id r \<noteq> r_id x) \<longleftrightarrow>
   (\<exists>r \<in> set (roles d). P r \<and> r_id r \<noteq> r_id x)"
  by (auto simp: put_role_def)


lemma update_to_superuser_error:
  assumes "\<not> r_is_superuser role"
    and "RoleRepository_update_role d role new_name (Some True) \<noteq> Inl IntegrityError"
  shows "(RoleRepository_update_role d role new_name (Some True) =
            Inl (ValueError ''A superuser role already exists'') \<or>
          RoleRepository_update_role d role new_name (Some True) = Inl MultipleResultsFound)
         \<longleftrightarrow> (\<exists>r \<in> set (roles d). r_is_superuser r \<and> r_id r \<noteq> r_id role)"
proof -
  define role1 where "role1 =
    (case new_name of None \<Rightarrow> role | Some n \<Rightarrow> if n \<noteq> [] then role\<lparr>r_name := n\<rparr> else role)"
  have r1: "r_id role1 = r_id role" "r_is_superuser role1 = r_is_superuser role"
    by (auto simp: role1_def split: option.splits)
  let ?chk = "assert_single_super_role (put_role d role1) (Some (r_id role1))"
  have upd: "RoleRepository_update_role d role new_name (Some True) =
      (case ?chk of Inl e \<Rightarrow> Inl e
       | Inr u \<Rightarrow> Inr (role1\<lparr>r_is_superuser := True\<rparr>,
                       put_role d (role1\<lparr>r_is_superuser := True\<rparr>)))"
    using assms r1
    by (auto simp: RoleRepository_update_role_def Let_def role1_def [symmetric]
        split: if_splits sum.splits)
  have "(RoleRepository_update_role d role new_name (Some True) =
            Inl (ValueError ''A superuser role already exists'') \<or>
          RoleRepository_update_role d role new_name (Some True) = Inl MultipleResultsFound)
        \<longleftrightarrow> (?chk = Inl (ValueError ''A superuser role already exists'') \<or>
             ?chk = Inl MultipleResultsFound)"
    unfolding upd by (auto split: sum.splits)
  also have "\<dots> \<longleftrightarrow>
      (\<exists>r \<in> set (roles (put_role d role1)). r_is_superuser r \<and> r_id r \<noteq> r_id role1)"
    unfolding assert_conflict_iff by auto
  also have "\<dots> \<longleftrightarrow> (\<exists>r \<in> set (roles d). r_is_superuser r \<and> r_id r \<noteq> r_id role)"
    using put_role_others [of d role1 r_is_superuser] r1 by simp
  finally show ?thesis .
qed

text \<open>
  C3, as amended. Creating a role with the superuser flag raises the superuser conflict
  (\<open>ValueError\<close>, or \<open>MultipleResultsFound\<close> when several such roles are stored) if and only
  if some stored role, soft-deleted or not, has the flag. When at most one stored role has
  the flag, the error is the \<open>ValueError\<close>, which the service answers with status 400.
  Updating a role that lacks the flag to the flag, when the flush of the name does not
  fail, raises the conflict if and only if some other stored role, soft-deleted or not,
  has the flag.
\<close>

theorem superuser_conflict_counts_deleted_roles:
  "((create d name privilege_ids True = Inl (ValueError ''A superuser role already exists'') \<or>
     create d name privilege_ids True = Inl MultipleResultsFound)
      \<longleftrightarrow> (\<exists>r \<in> set (roles d). r_is_superuser r)) \<and>
   (at_most_one_superuser d \<longrightarrow>
      (create d name privilege_ids True = Inl (ValueError ''A superuser role already exists'')
         \<longleftrightarrow> (\<exists>r \<in> set (roles d). r_is_superuser r)) \<and>
      (RoleService_create_role d name privs True =
         Inl (HTTPException 400 ''A superuser role already exists'')
         \<longleftrightarrow> (\<exists>r \<in> set (roles d). r_is_superuser r))) \<and>
   (\<not> r_is_superuser role \<and>
    RoleRepository_update_role d role new_name (Some True) \<noteq> Inl IntegrityError \<longrightarrow>
      ((RoleRepository_update_role d role new_name (Some True) =
          Inl (ValueError ''A superuser role already exists'') \<or>
        RoleRepository_update_role d role new_name (Some True) = Inl MultipleResultsFound)
         \<longleftrightarrow> (\<exists>r \<in> set (roles d). r_is_superuser r \<and> r_id r \<noteq> r_id role)))"
proof -
  have a: "(create d name privilege_ids True =
              Inl (ValueError ''A superuser role already exists'') \<or>
            create d name privilege_ids True = Inl MultipleResultsFound)
           \<longleftrightarrow> (\<exists>r \<in> set (roles d). r_is_superuser r)"
    unfolding create_superuser_error assert_conflict_iff by simp
  have b: "at_most_one_superuser d \<longrightarrow>
      (create d name privilege_ids True = Inl (ValueError ''A superuser role already exists'')
         \<longleftrightarrow> (\<exists>r \<in> set (roles d). r_is_superuser r)) \<and>
      (RoleService_create_role d name privs True =
         Inl (HTTPException 400 ''A superuser role already exists'')
         \<longleftrightarrow> (\<exists>r \<in> set (roles d). r_is_superuser r))"
    unfolding service_create_bad_request create_superuser_error
    using assert_value_error_iff by blast
  have c: "\<not> r_is_superuser role \<and>
    RoleRepository_update_role d role new_name (Some True) \<noteq> Inl IntegrityError \<longrightarrow>
      ((RoleRepository_update_role d role new_name (Some True) =
          Inl (ValueError ''A superuser role already exists'') \<or>
        RoleRepository_update_role d role new_name (Some True) = Inl MultipleResultsFound)
         \<longleftrightarrow> (\<exists>r \<in> set (roles d). r_is_superuser r \<and> r_id r \<noteq> r_id role))"
    using update_to_superuser_error by blast
  from a b c show ?thesis
    by (simp only: simp_thms)
qed

theorem superuser_conflict_witness:
  "create admin_and_staff_db ''root'' None True =
     Inl (ValueError ''A superuser role already exists'') \<and>
   RoleService_create_role admin_and_staff_db ''root'' None True =
     Inl (HTTPException 400 ''A superuser role already exists'') \<and>
   RoleRepository_update_role admin_and_staff_db staff_role None (Some True) =
     Inl (ValueError ''A superuser role already exists'')"
proof -
  have one: "at_most_one_superuser admin_and_staff_db"
    and ex: "\<exists>r \<in> set (roles admin_and_staff_db). r_is_superuser r"
    and ex2: "\<exists>r \<in> set (roles admin_and_staff_db). r_is_superuser r \<and> r_id r \<noteq> r_id staff_role"
    and staff: "\<not> r_is_superuser staff_role"
    by (simp_all add: admin_and_staff_db_def staff_role_def at_most_one_superuser_def)
  have upd: "RoleRepository_update_role admin_and_staff_db staff_role None (Some True) =
     Inl (ValueError ''A superuser role already exists'')"
    by (simp add: admin_and_staff_db_def staff_role_def role_eval)
  show ?thesis
    using superuser_conflict_counts_deleted_roles
      [of admin_and_staff_db "''root''" None None staff_role None] one ex ex2 staff upd
    by simp
qed

text \<open>
  C3 as stated fails: after creating a superuser role and soft-deleting it, no active role
  has the flag, and creating a superuser role still raises.
\<close>

theorem create_refused_by_soft_deleted_superuser:
  "foldl role_step empty_db [CreateRole ''old-admin'' None True, SoftDeleteRole 1 3] =
     deleted_superuser_db \<and>
   \<not> (\<exists>r \<in> set (roles deleted_superuser_db). r_is_superuser r \<and> r_deleted_at r = None) \<and>
   create deleted_superuser_db ''admin'' None True =
     Inl (ValueError ''A superuser role already exists'') \<and>
   RoleService_create_role deleted_superuser_db ''admin'' None True =
     Inl (HTTPException 400 ''A superuser role already exists'')"
  by (simp add: deleted_superuser_db_def role_eval)


section \<open>The bootstrap seed\<close>

lemma seeded_privileges_rows: "seeded_privileges = [
  \<lparr>p_id = 1, p_resource = ''users'', p_action = ''read'',
   p_description = None, p_deleted_at = None\<rparr>,
  \<lparr>p_id = 2, p_resource = ''users'', p_action = ''insert'',
   p_description = None, p_deleted_at = None\<rparr>,
  \<lparr>p_id = 3, p_resource = ''users'', p_action = ''update'',
   p_description = None, p_deleted_at = None\<rparr>,
  \<lparr>p_id = 4, p_resource = ''users'', p_action = ''delete'',
   p_description = None, p_deleted_at = None\<rparr>,
  \<lparr>p_id = 5, p_resource = ''users'', p_action = ''block'',
   p_description = None, p_deleted_at = None\<rparr>,
  \<lparr>p_id = 6, p_resource = ''users'', p_action = ''unblock'',
   p_description = None, p_deleted_at = None\<rparr>,
  \<lparr>p_id = 7, p_resource = ''users'', p_action = ''reset_password'',
   p_description = None, p_deleted_at = None\<rparr>,
  \<lparr>p_id = 8, p_resource = ''roles'', p_action = ''read'',
   p_description = None, p_deleted_at = None\<rparr>,
  \<lparr>p_id = 9, p_resource = ''roles'', p_action = ''insert'',
   p_description = None, p_deleted_at = None\<rparr>,
  \<lparr>p_id = 10, p_resource = ''roles'', p_action = ''update'',
   p_description = None, p_deleted_at = None\<rparr>,
  \<lparr>p_id = 11, p_resource = ''roles'', p_action = ''delete'',
   p_description = None, p_deleted_at = None\<rparr>,
  \<lparr>p_id = 12, p_resource = ''privileges'', p_action = ''read'',
   p_description = None, p_deleted_at = None\<rparr>,
  \<lparr>p_id = 13, p_resource = ''privileges'', p_action = ''insert'',
   p_description = None, p_deleted_at = None\<rparr>,
  \<lparr>p_id = 14, p_resource = ''privileges'', p_action = ''update'',
   p_description = None, p_deleted_at = None\<rparr>,
  \<lparr>p_id = 15, p_resource = ''privileges'', p_action = ''delete'',
   p_description = None, p_deleted_at = None\<rparr>]"
  by (simp add: seeded_privileges_def privilege_specs_def)

lemma seed_privileges_created: "get_or_create_each empty_db privilege_specs =
    Inr (seeded_privileges, empty_db\<lparr>privileges := seeded_privileges\<rparr>)"
  unfolding seeded_privileges_rows
  by (simp add: get_or_create_def next_id_def Let_def empty_db_def privilege_specs_def)

lemma seed_no_admin_role: "get_by_name (empty_db\<lparr>privileges := seeded_privileges\<rparr>) ''admin'' = Inr None"
  by (simp add: get_by_name_def empty_db_def)

lemma seed_admin_role_created: "create (empty_db\<lparr>privileges := seeded_privileges\<rparr>) ''admin'' None True =
   Inr (admin_role, empty_db\<lparr>privileges := seeded_privileges, roles := [admin_role]\<rparr>)"
  by (simp add: create_def assert_single_super_role_def empty_db_def admin_role_def next_id_def
      Let_def)

lemma seed_privileges_attached: "fold (\<lambda>privilege d'. attach_privilege d' admin_role privilege) seeded_privileges
    (empty_db\<lparr>privileges := seeded_privileges, roles := [admin_role]\<rparr>) =
   empty_db\<lparr>privileges := seeded_privileges, roles := [admin_role],
     role_privileges := map (\<lambda>p. (1, p_id p)) seeded_privileges\<rparr>"
  unfolding seeded_privileges_rows
  by (simp add: attach_privilege_def admin_role_def empty_db_def)


lemma seed_admin_user_created: "create_user h
     (empty_db\<lparr>privileges := seeded_privileges, roles := [admin_role],
        role_privileges := map (\<lambda>p. (1, p_id p)) seeded_privileges\<rparr>)
     ''admin@example.com'' ''ChangeMe123!'' False (Some [1]) =
   Inr (admin_user h, seeded_db h)"
  by (simp add: create_user_def empty_db_def admin_role_def admin_user_def seeded_db_def
      next_id_def Let_def)

lemma seed_first: "seed_initial_data h empty_db = Inr (seeded_db h)"
proof -
  have email: "get_by_email
     (empty_db\<lparr>privileges := seeded_privileges, roles := [admin_role],
        role_privileges := map (\<lambda>p. (1, p_id p)) seeded_privileges\<rparr>)
     ''admin@example.com'' = Inr None"
    by (simp add: get_by_email_def empty_db_def)
  have rid: "r_id admin_role = 1"
    by (simp add: admin_role_def)
  show ?thesis
    by (simp add: seed_initial_data_def seed_privileges_created seed_no_admin_role seed_admin_role_created seed_privileges_attached email rid seed_admin_user_created)
qed

lemma seed_privileges_found: "get_or_create_each (seeded_db h) privilege_specs = Inr (seeded_privileges, seeded_db h)"
  unfolding seeded_db_def seeded_privileges_rows
  by (simp add: get_or_create_def privilege_specs_def)

lemma seed_second: "seed_initial_data h (seeded_db h) = Inr (seeded_db h)"
proof -
  have name: "get_by_name (seeded_db h) ''admin'' = Inr (Some admin_role)"
    by (simp add: get_by_name_def seeded_db_def admin_role_def)
  have email: "get_by_email (seeded_db h) ''admin@example.com'' = Inr (Some (admin_user h))"
    by (simp add: get_by_email_def seeded_db_def admin_user_def)
  show ?thesis
    by (simp add: seed_initial_data_def seed_privileges_found name email)
qed

text \<open>
  C8. On empty storage the bootstrap succeeds and leaves exactly one active superuser role,
  named admin, whose active privileges are the fifteen pairs of the baseline in order, and
  exactly one active user, who is assigned to that role; run again on the resulting state
  it returns the same state: no role, user, privilege or link is added.
\<close>

theorem seed_bootstrap_idempotent:
  "seed_initial_data h empty_db = Inr (seeded_db h) \<and>
   [r \<leftarrow> roles (seeded_db h). r_is_superuser r \<and> r_deleted_at r = None] = [admin_role] \<and>
   r_name admin_role = ''admin'' \<and>
   [(p_resource p, p_action p).
      l \<leftarrow> role_privileges (seeded_db h), fst l = r_id admin_role,
      p \<leftarrow> privileges (seeded_db h), p_id p = snd l \<and> p_deleted_at p = None] =
     privilege_specs \<and>
   [u \<leftarrow> users (seeded_db h). u_deleted_at u = None] = [admin_user h] \<and>
   u_is_active (admin_user h) \<and>
   user_roles (seeded_db h) = [(u_id (admin_user h), r_id admin_role)] \<and>
   length (roles (seeded_db h)) = 1 \<and> length (users (seeded_db h)) = 1 \<and>
   length (privileges (seeded_db h)) = 15 \<and>
   seed_initial_data h (seeded_db h) = Inr (seeded_db h)"
proof -
  have held: "[(p_resource p, p_action p).
      l \<leftarrow> role_privileges (seeded_db h), fst l = r_id admin_role,
      p \<leftarrow> privileges (seeded_db h), p_id p = snd l \<and> p_deleted_at p = None] =
     privilege_specs"
    unfolding seeded_db_def seeded_privileges_rows
    by (simp add: admin_role_def privilege_specs_def)
  have rest: "[r \<leftarrow> roles (seeded_db h). r_is_superuser r \<and> r_deleted_at r = None] =
      [admin_role] \<and>
    r_name admin_role = ''admin'' \<and>
    [u \<leftarrow> users (seeded_db h). u_deleted_at u = None] = [admin_user h] \<and>
    u_is_active (admin_user h) \<and>
    user_roles (seeded_db h) = [(u_id (admin_user h), r_id admin_role)] \<and>
    length (roles (seeded_db h)) = 1 \<and> length (users (seeded_db h)) = 1 \<and>
    length (privileges (seeded_db h)) = 15"
    unfolding seeded_db_def seeded_privileges_rows
    by (simp add: admin_role_def admin_user_def)
  from seed_first held rest seed_second show ?thesis
    by (simp only: simp_thms)
qed

section \<open>Blocked users and get_current_user\<close>

lemma get_client_ready:
  "get_client c = (has_client, c1) \<Longrightarrow>
   get_client c1 = (has_client, c1) \<and> client c1 = has_client \<and> redis_up c1 = redis_up c \<and>
   ping_passes c1 = ping_passes c \<and> dragonfly_ttl_seconds c1 = dragonfly_ttl_seconds c \<and>
   fallback c1 = fallback c \<and> (\<not> has_client \<longrightarrow> \<not> (redis_up c \<and> ping_passes c))"
  by (auto simp: get_client_def split: if_splits)

text \<open>A call the cache answers leaves it without a client: the fallback answered.\<close>

lemma DragonflyCache_get_after:
  assumes "DragonflyCache_get c now key = (Inr v, c1)"
  shows "get_client c1 = (False, c1)"
proof -
  obtain has_client c0 where g: "get_client c = (has_client, c0)"
    by (cases "get_client c")
  note r = get_client_ready [OF g]
  have no_client: "\<not> has_client"
    using assms g by (auto simp: DragonflyCache_get_def)
  then obtain f where c1: "c1 = c0\<lparr>fallback := f\<rparr>"
    using assms g by (auto simp: DragonflyCache_get_def split: prod.splits)
  show ?thesis
    using r no_client unfolding c1 by (simp add: get_client_def)
qed

lemma DragonflyCache_set_fallback:
  assumes "get_client c = (False, c)"
  shows "\<exists>c'. DragonflyCache_set c now key v ttl = (Inr (), c')"
  using assms by (simp add: DragonflyCache_set_def Let_def)

text \<open>
  C9, as amended. A request whose token decodes to a user id and for which the revocation
  ledger answers "not revoked", for a user whose stored row is not soft-deleted and has
  \<open>is_blocked\<close> set, is rejected with 401 "Could not validate credentials", the response a
  token that does not decode gets, provided the cache of the serving process holds under
  the user's id key no unexpired entry or a snapshot with \<open>is_blocked\<close> set. The user is
  read through the cache, and a cached snapshot is returned without a look at the stored
  row.
\<close>

theorem blocked_user_is_unauthenticated:
  assumes decoded: "decode token = Some payload" and sub: "claim_sub payload = Some user_id"
    and unrevoked: "is_revoked c now token = (Inr False, c1)"
    and stored: "UserRepository_get_by_id d user_id = Inr (Some user)"
    and blocked: "u_is_blocked user"
    and entry: "fst (DragonflyCache_get c1 now (''user:id:'' @ str_int user_id)) = Inr cached"
    and coherent: "cached = None \<or> (\<exists>p. cached = Some (CUser p) \<and> up_is_blocked p)"
  shows "fst (get_current_user decode c now d token) =
           Inl (HTTPException 401 ''Could not validate credentials'') \<and>
         fst (get_current_user (\<lambda>t. None) c now d token) =
           Inl (HTTPException 401 ''Could not validate credentials'')"
proof -
  let ?key = "''user:id:'' @ str_int user_id"
  obtain c2 where got: "DragonflyCache_get c1 now ?key = (Inr cached, c2)"
    using entry by (cases "DragonflyCache_get c1 now ?key") auto
  have "fst (UserService_get_by_id c1 now d user_id) = Inr (Some (Loaded user)) \<or>
        (\<exists>p. fst (UserService_get_by_id c1 now d user_id) = Inr (Some (Cached p)) \<and>
             up_is_blocked p)"
  proof (cases cached)
    case None
    obtain c3 where "DragonflyCache_set c2 now ?key (CUser (serialize_user d user)) None =
        (Inr (), c3)"
      using DragonflyCache_set_fallback [OF DragonflyCache_get_after [OF got]] by blast
    then show ?thesis
      using None got stored by (simp add: UserService_get_by_id_def cached_lookup_def)
  next
    case (Some v)
    then obtain p where "cached = Some (CUser p)" "up_is_blocked p"
      using coherent by auto
    then show ?thesis
      using got by (simp add: UserService_get_by_id_def cached_lookup_def)
  qed
  then obtain user' c3 where
    "UserService_get_by_id c1 now d user_id = (Inr (Some user'), c3)" "is_blocked user'"
    using blocked by (cases "UserService_get_by_id c1 now d user_id") auto
  then have "fst (get_current_user decode c now d token) = Inl credentials_exception"
    using decoded sub unrevoked by (simp add: get_current_user_def)
  then show ?thesis
    by (simp add: credentials_exception_def get_current_user_def)
qed

lemmas cache_eval =
  new_cache_def default_settings_def get_client_def client_error_def DragonflyCache_get_def
  DragonflyCache_set_def DragonflyCache_delete_def AsyncTTLCache_get_def AsyncTTLCache_set_def
  AsyncTTLCache_delete_def pop_key_def is_revoked_def revoke_def Let_def

lemmas user_service_eval =
  UserService_get_by_email_def UserService_get_by_id_def cached_lookup_def
  UserService_update_user_def require_user_def UserRepository_get_by_id_def get_by_email_def
  UserRepository_update_user_def put_user_def invalidate_commit_def invalidate_cache_def
  serialize_user_def str_int_def str_nat.simps

lemmas token_eval =
  alice_token_def verify_alice_token_def issued_payload_def decode_access_token_def
  get_current_user_def credentials_exception_def

text \<open>
  The state of the cache and the database after alice, cached at time 100 by the process
  that serves the requests below, has been blocked: by that process, or by another.
\<close>

lemma alice_cached_fields:
  "client alice_cached = False" "redis_up alice_cached = False"
  "ping_passes alice_cached = False" "dragonfly_ttl_seconds alice_cached = 30"
  "store (fallback alice_cached) = [''user:id:1'' \<mapsto> CUser (serialize_user alice_db alice)]"
  "expirations (fallback alice_cached) = [''user:id:1'' \<mapsto> 130]"
  "ttl_seconds (fallback alice_cached) = 30"
  by (simp_all add: alice_cached_def cache_eval user_service_eval alice_db_def alice_def
      empty_db_def)

lemma str_int_1: "str_int 1 = ''1''"
  by (simp add: str_int_def str_nat.simps)

lemma blocked_elsewhere_result:
  "blocked_elsewhere =
     (Inr (alice\<lparr>u_is_blocked := True\<rparr>), new_cache default_settings False, blocked_alice_db)"
  by (simp add: blocked_elsewhere_def block_user_def set_block_status_def cache_eval
      user_service_eval alice_db_def blocked_alice_db_def alice_def empty_db_def)

lemma blocked_here_result:
  "fst blocked_here = Inr (alice\<lparr>u_is_blocked := True\<rparr>)"
  "snd (snd blocked_here) = blocked_alice_db"
  "client (fst (snd blocked_here)) = False" "redis_up (fst (snd blocked_here)) = False"
  "ping_passes (fst (snd blocked_here)) = False"
  "store (fallback (fst (snd blocked_here))) = Map.empty"
  "expirations (fallback (fst (snd blocked_here))) = Map.empty"
  by (simp_all add: blocked_here_def block_user_def set_block_status_def
      get_client_def client_error_def DragonflyCache_delete_def AsyncTTLCache_delete_def
      pop_key_def Let_def alice_cached_fields str_int_1
      require_user_def UserRepository_get_by_id_def put_user_def invalidate_commit_def
      invalidate_cache_def alice_db_def blocked_alice_db_def alice_def empty_db_def)

lemma blocked_alice_stored:
  "UserRepository_get_by_id blocked_alice_db 1 = Inr (Some (alice\<lparr>u_is_blocked := True\<rparr>))"
  by (simp add: UserRepository_get_by_id_def blocked_alice_db_def alice_def empty_db_def)

text \<open>
  C9 as stated fails. The module-level cache is one per process, and the store never holds
  an entry, so \<open>block_user\<close> served by one process clears that process's cache only. A
  process that read alice at time 100 keeps her snapshot until time 130: at time 105 her
  token is valid, unexpired and not revoked, her stored row is not soft-deleted and has
  \<open>is_blocked\<close> set, and \<open>get_current_user\<close> returns the snapshot, with \<open>is_blocked\<close> unset,
  instead of raising 401.
\<close>

theorem stale_snapshot_admits_blocked_user:
  "fst blocked_elsewhere = Inr (alice\<lparr>u_is_blocked := True\<rparr>) \<and>
   UserRepository_get_by_id (snd (snd blocked_elsewhere)) 1 =
     Inr (Some (alice\<lparr>u_is_blocked := True\<rparr>)) \<and>
   u_deleted_at (alice\<lparr>u_is_blocked := True\<rparr>) = None \<and>
   decode_access_token verify_alice_token 105 alice_token =
     Some (issued_payload default_settings 50 1 ''alice@example.com'') \<and>
   fst (is_revoked alice_cached 105 alice_token) = Inr False \<and>
   fst (get_current_user (decode_access_token verify_alice_token 105) alice_cached 105
          (snd (snd blocked_elsewhere)) alice_token) =
     Inr (Cached (serialize_user alice_db alice)) \<and>
   is_blocked (Cached (serialize_user alice_db alice)) = False"
proof -
  have a: "fst blocked_elsewhere = Inr (alice\<lparr>u_is_blocked := True\<rparr>)"
    and db: "snd (snd blocked_elsewhere) = blocked_alice_db"
    by (simp_all add: blocked_elsewhere_result)
  have b: "UserRepository_get_by_id (snd (snd blocked_elsewhere)) 1 =
      Inr (Some (alice\<lparr>u_is_blocked := True\<rparr>))"
    unfolding db by (rule blocked_alice_stored)
  have c: "u_deleted_at (alice\<lparr>u_is_blocked := True\<rparr>) = None"
    by (simp add: alice_def)
  have d: "decode_access_token verify_alice_token 105 alice_token =
      Some (issued_payload default_settings 50 1 ''alice@example.com'')"
    by (simp add: token_eval default_settings_def)
  have e: "is_revoked alice_cached 105 alice_token = (Inr False, alice_cached)"
    by (simp add: is_revoked_def DragonflyCache_get_def get_client_def AsyncTTLCache_get_def
        pop_key_def alice_cached_fields alice_token_def)
  have f: "fst (UserService_get_by_id alice_cached 105 blocked_alice_db 1) =
      Inr (Some (Cached (serialize_user alice_db alice)))"
    by (simp add: UserService_get_by_id_def cached_lookup_def DragonflyCache_get_def
        get_client_def AsyncTTLCache_get_def alice_cached_fields str_int_1)
  have g: "fst (get_current_user (decode_access_token verify_alice_token 105) alice_cached 105
      (snd (snd blocked_elsewhere)) alice_token) = Inr (Cached (serialize_user alice_db alice))"
    unfolding db using d e f
    by (cases "UserService_get_by_id alice_cached 105 blocked_alice_db 1")
      (simp add: get_current_user_def issued_payload_def serialize_user_def alice_def)
  have h: "is_blocked (Cached (serialize_user alice_db alice)) = False"
    by (simp add: serialize_user_def alice_def)
  from a b c d e g h show ?thesis
    by (simp only: fst_conv simp_thms)
qed

text \<open>
  Where the process that has the snapshot serves \<open>block_user\<close> itself, the snapshot is
  deleted and the request at time 105 is rejected.
\<close>

theorem blocked_user_is_unauthenticated_witness:
  "fst (get_current_user (decode_access_token verify_alice_token 105) (fst (snd blocked_here))
          105 (snd (snd blocked_here)) alice_token) =
     Inl (HTTPException 401 ''Could not validate credentials'')"
proof -
  let ?c = "fst (snd blocked_here)"
  have decoded: "decode_access_token verify_alice_token 105 alice_token =
      Some (issued_payload default_settings 50 1 ''alice@example.com'')"
    by (simp add: token_eval default_settings_def)
  have sub: "claim_sub (issued_payload default_settings 50 1 ''alice@example.com'') = Some 1"
    by (simp add: issued_payload_def)
  have client: "get_client ?c = (False, ?c)"
    by (simp add: get_client_def blocked_here_result)
  have unrevoked: "is_revoked ?c 105 alice_token =
      (Inr False, ?c\<lparr>fallback := pop_key (fallback ?c) (''token:block:'' @ alice_token)\<rparr>)"
    by (simp add: is_revoked_def DragonflyCache_get_def AsyncTTLCache_get_def client
        blocked_here_result)
  have entry: "fst (DragonflyCache_get
      (?c\<lparr>fallback := pop_key (fallback ?c) (''token:block:'' @ alice_token)\<rparr>) 105
      (''user:id:'' @ str_int 1)) = Inr None"
    by (simp add: DragonflyCache_get_def get_client_def AsyncTTLCache_get_def pop_key_def
        blocked_here_result)
  have blocked: "u_is_blocked (alice\<lparr>u_is_blocked := True\<rparr>)"
    by simp
  show ?thesis
    using blocked_user_is_unauthenticated
      [where decode = "decode_access_token verify_alice_token 105" and d = "snd (snd blocked_here)"
        and cached = None and user = "alice\<lparr>u_is_blocked := True\<rparr>",
        OF decoded sub unrevoked _ blocked entry]
      blocked_alice_stored
    by (simp add: blocked_here_result)
qed

section \<open>Token revocation\<close>
















section \<open>Cache invalidation in UserService\<close>

text \<open>
  C10. At the failing input: the user is read by \<open>get_by_email\<close> (which caches her under
  the key of her email), then \<open>update_user\<close> changes her email. The invalidation deletes
  the keys of the new email and of the id; the entry under the old email stays, and
  \<open>get_by_email\<close> with the old email returns the cached copy although no active user has
  that email any more.
\<close>

theorem stale_entry_under_old_email:
  "fst (UserService_get_by_email (new_cache default_settings False) 100 alice_db
          ''alice@example.com'') = Inr (Some (Loaded alice)) \<and>
   fst renamed_alice_world = Inr (alice\<lparr>u_email := ''alice@new.example.com''\<rparr>) \<and>
   users (snd (snd renamed_alice_world)) = [alice\<lparr>u_email := ''alice@new.example.com''\<rparr>] \<and>
   get_by_email (snd (snd renamed_alice_world)) ''alice@example.com'' = Inr None \<and>
   fst (UserService_get_by_email (fst (snd renamed_alice_world)) 105
          (snd (snd renamed_alice_world)) ''alice@example.com'') =
     Inr (Some (Cached (serialize_user alice_db alice))) \<and>
   up_email (serialize_user alice_db alice) = ''alice@example.com''"
  by (simp add: renamed_alice_world_def cache_eval user_service_eval alice_db_def alice_def
      empty_db_def)


text \<open>
  What the invalidation does achieve: after it, the cache has no entry under the key of the
  user's current email nor under the key of the user's id.
\<close>

lemma DragonflyCache_delete_clears:
  assumes "DragonflyCache_delete c key = (Inr (), c1)"
  shows "fst (DragonflyCache_get c1 now key) = Inr None \<and>
         (fst (DragonflyCache_get c now' key') = Inr None \<longrightarrow>
            fst (DragonflyCache_get c1 now' key') = Inr None)"
proof -
  obtain has_client c0 where g: "get_client c = (has_client, c0)"
    by (cases "get_client c")
  note r = get_client_ready [OF g]
  have no_client: "\<not> has_client"
    using assms g by (auto simp: DragonflyCache_delete_def)
  have c1: "c1 = c0\<lparr>fallback := pop_key (fallback c0) key\<rparr>"
    using assms g no_client by (auto simp: DragonflyCache_delete_def AsyncTTLCache_delete_def)
  have g1: "get_client c1 = (False, c1)"
    using r no_client unfolding c1 by (simp add: get_client_def)
  have g0: "get_client c0 = (False, c0)"
    using r no_client by simp
  have same: "fst (DragonflyCache_get c now' key') = fst (DragonflyCache_get c0 now' key')"
    using g g0 no_client by (simp add: DragonflyCache_get_def)
  show ?thesis
    unfolding same using g1 g0 unfolding c1
    by (auto simp: DragonflyCache_get_def AsyncTTLCache_get_def pop_key_def
        split: option.splits if_splits)
qed

lemma invalidate_cache_clears:
  assumes "invalidate_cache c user = (Inr (), c1)" and "u_id user \<noteq> 0"
  shows "fst (DragonflyCache_get c1 now (''user:email:'' @ u_email user)) = Inr None \<and>
         fst (DragonflyCache_get c1 now (''user:id:'' @ str_int (u_id user))) = Inr None"
proof -
  obtain c0 where first: "DragonflyCache_delete c (''user:email:'' @ u_email user) = (Inr (), c0)"
    and second: "DragonflyCache_delete c0 (''user:id:'' @ str_int (u_id user)) = (Inr (), c1)"
    using assms
    by (auto simp: invalidate_cache_def split: prod.splits sum.splits)
  show ?thesis
    using DragonflyCache_delete_clears [OF first, of now now "''user:email:'' @ u_email user"]
      DragonflyCache_delete_clears [OF second, of now now "''user:email:'' @ u_email user"]
    by simp
qed

section \<open>Blocking a user in the serving process\<close>


lemma get_by_id_miss:
  assumes "fst (DragonflyCache_get c now (''user:id:'' @ str_int user_id)) = Inr None"
    and "UserRepository_get_by_id d user_id = Inr (Some user)"
  shows "fst (UserService_get_by_id c now d user_id) = Inr (Some (Loaded user))"
proof -
  let ?key = "''user:id:'' @ str_int user_id"
  obtain c2 where got: "DragonflyCache_get c now ?key = (Inr None, c2)"
    using assms(1) by (cases "DragonflyCache_get c now ?key") auto
  obtain c3 where "DragonflyCache_set c2 now ?key (CUser (serialize_user d user)) None =
      (Inr (), c3)"
    using DragonflyCache_set_fallback [OF DragonflyCache_get_after [OF got]] by blast
  then show ?thesis
    using got assms(2) by (simp add: UserService_get_by_id_def cached_lookup_def)
qed

lemma DragonflyCache_get_keeps_miss:
  assumes "DragonflyCache_get c now key = (Inr v, c1)"
    and "fst (DragonflyCache_get c now' key') = Inr None"
  shows "fst (DragonflyCache_get c1 now' key') = Inr None"
proof -
  obtain has_client c0 where g: "get_client c = (has_client, c0)"
    by (cases "get_client c")
  note r = get_client_ready [OF g]
  have no_client: "\<not> has_client"
    using assms(1) g by (auto simp: DragonflyCache_get_def)
  have g0: "get_client c0 = (False, c0)"
    using r no_client by simp
  have c1: "c1 = c0\<lparr>fallback := snd (AsyncTTLCache_get (fallback c0) now key)\<rparr>"
    using assms(1) g no_client by (auto simp: DragonflyCache_get_def split: prod.splits)
  have g1: "get_client c1 = (False, c1)"
    using DragonflyCache_get_after [OF assms(1)] .
  have same: "fst (DragonflyCache_get c now' key') = fst (DragonflyCache_get c0 now' key')"
    using g g0 no_client by (simp add: DragonflyCache_get_def)
  show ?thesis
    using assms(2) g1 g0 unfolding same unfolding c1
    by (auto simp: DragonflyCache_get_def AsyncTTLCache_get_def pop_key_def
        split: option.splits if_splits)
qed

lemma filter_replaced_none:
  "a \<notin> f ` set xs \<Longrightarrow> [u \<leftarrow> map (\<lambda>u. if f u = a then x' else u) xs. f u = a \<and> P u] = []"
  by (induction xs) auto

lemma filter_replaced_one:
  "distinct (map f xs) \<Longrightarrow> x \<in> set xs \<Longrightarrow> f x = a \<Longrightarrow> f x' = a \<Longrightarrow> P x' \<Longrightarrow>
   [u \<leftarrow> map (\<lambda>u. if f u = a then x' else u) xs. f u = a \<and> P u] = [x']"
proof (induction xs)
  case Nil
  then show ?case by simp
next
  case (Cons y ys)
  show ?case
  proof (cases "f y = a")
    case True
    then have "a \<notin> f ` set ys"
      using Cons.prems(1) by auto
    then show ?thesis
      using True Cons.prems(4,5) filter_replaced_none [where a = a and f = f and xs = ys and x' = x' and P = P] by simp
  next
    case False
    then have "x \<in> set ys"
      using Cons.prems(2,3) by auto
    then show ?thesis
      using False Cons.IH Cons.prems by simp
  qed
qed

lemma block_user_stored:
  assumes blocked: "block_user c d user_id = (Inr user, c1, d1)"
    and ids: "distinct (map u_id (users d))"
  shows "UserRepository_get_by_id d1 user_id = Inr (Some user) \<and> u_is_blocked user \<and>
         u_id user = user_id \<and> u_deleted_at user = None \<and>
         invalidate_cache c user = (Inr (), c1)"
proof -
  obtain user0 where req: "require_user d user_id False = Inr user0"
    using blocked by (cases "require_user d user_id False") (auto simp: block_user_def)
  then have "UserRepository_get_by_id d user_id = Inr (Some user0)"
    by (auto simp: require_user_def split: sum.splits option.splits if_splits)
  then have row: "[u \<leftarrow> users d. u_id u = user_id \<and> u_deleted_at u = None] = [user0]"
    by (simp add: UserRepository_get_by_id_def scalar_one_or_none_Some)
  then have "user0 \<in> set [u \<leftarrow> users d. u_id u = user_id \<and> u_deleted_at u = None]"
    by simp
  then have user0: "user0 \<in> set (users d)" "u_id user0 = user_id" "u_deleted_at user0 = None"
    by simp_all
  let ?user1 = "user0\<lparr>u_is_blocked := True\<rparr>"
  have result: "user = ?user1" "d1 = put_user d ?user1" "invalidate_cache c ?user1 = (Inr (), c1)"
    using blocked req
    by (auto simp: block_user_def set_block_status_def invalidate_commit_def Let_def
        split: sum.splits prod.splits)
  have "[u \<leftarrow> map (\<lambda>u. if u_id u = user_id then ?user1 else u) (users d).
          u_id u = user_id \<and> u_deleted_at u = None] = [?user1]"
    using filter_replaced_one [where x' = ?user1 and P = "\<lambda>u. u_deleted_at u = None", OF ids user0(1,2)] user0
    by simp
  then have "UserRepository_get_by_id d1 user_id = Inr (Some ?user1)"
    using user0 by (simp add: result UserRepository_get_by_id_def put_user_def)
  then show ?thesis
    using result user0 by simp
qed

text \<open>
  Where the process that serves the request has served \<open>block_user\<close> for that user before,
  with nothing in between, the entry under the user's id key is gone and the request is
  rejected.
\<close>

lemma blocked_in_this_process_is_unauthenticated:
  assumes blocked: "block_user c d user_id = (Inr user, c1, d1)"
    and ids: "distinct (map u_id (users d))" and id: "user_id \<noteq> 0"
    and decoded: "decode token = Some payload" and sub: "claim_sub payload = Some user_id"
    and unrevoked: "fst (is_revoked c1 now token) = Inr False"
  shows "fst (get_current_user decode c1 now d1 token) =
           Inl (HTTPException 401 ''Could not validate credentials'')"
proof -
  let ?key = "''user:id:'' @ str_int user_id"
  note stored = block_user_stored [OF blocked ids]
  have miss: "fst (DragonflyCache_get c1 now ?key) = Inr None"
    using invalidate_cache_clears [of c user c1 now] stored id by simp
  obtain v c2 where got: "DragonflyCache_get c1 now (''token:block:'' @ token) = (Inr v, c2)"
    and c2: "is_revoked c1 now token = (Inr False, c2)"
    using unrevoked
    by (cases "DragonflyCache_get c1 now (''token:block:'' @ token)")
      (auto simp: is_revoked_def split: sum.splits)
  have "fst (DragonflyCache_get c2 now ?key) = Inr None"
    using DragonflyCache_get_keeps_miss [OF got miss] .
  then have "fst (UserService_get_by_id c2 now d1 user_id) = Inr (Some (Loaded user))"
    using get_by_id_miss stored by simp
  then obtain c3 where "UserService_get_by_id c2 now d1 user_id = (Inr (Some (Loaded user)), c3)"
    by (cases "UserService_get_by_id c2 now d1 user_id") auto
  then show ?thesis
    using decoded sub c2 stored
    by (simp add: get_current_user_def credentials_exception_def)
qed

end
